theory Spec2Isabelle
  imports Main "HOL-Library.Sublist" "HOL-Library.Multiset"
begin

text \<open>
  Two multicall solvers (\<open>ThreePoolCrvMulticall\<close>, \<open>CurveSpellEthMulticall\<close>) and the
  detached harvest worker of the keep3r strategies, as functions over an explicit outside:
  the forked chain and the quote provider for the solvers, the job contract and the local
  clock for the worker. An awaited call that throws is a value of the model, and so is
  every \<open>throw\<close> of the scripts.
\<close>

section \<open>JavaScript values used by the scripts\<close>

type_synonym address = string

text \<open>
  An ethers \<open>BigNumber\<close> is an arbitrary-precision signed integer: \<open>sub\<close>, \<open>mul\<close>,
  \<open>div\<close>, \<open>eq\<close> and \<open>lte\<close> are the operations of \<open>int\<close> (balances and gas are
  never negative, so the truncating \<open>div\<close> is the floor).
\<close>

type_synonym BigNumber = int

definition MaxUint256 :: BigNumber where
  "MaxUint256 = 2 ^ 256 - 1"

subsection \<open>The relational operator on two BigNumber objects\<close>

text \<open>
  \<open>a < b\<close> on two objects converts each to a primitive. A BigNumber has no \<open>valueOf\<close>
  of its own, so the conversion is \<open>toString()\<close>, the decimal representation, and two
  strings are compared by their code units, the shorter one first when it is a prefix.
\<close>

definition digit_char :: "nat \<Rightarrow> char" where
  "digit_char d = char_of (48 + d)"

fun nat_toString :: "nat \<Rightarrow> string" where
  "nat_toString n =
     (if n < 10 then [digit_char n] else nat_toString (n div 10) @ [digit_char (n mod 10)])"

declare nat_toString.simps [simp del]

definition BigNumber_toString :: "BigNumber \<Rightarrow> string" where
  "BigNumber_toString i =
     (if i < 0 then CHR ''-'' # nat_toString (nat (- i)) else nat_toString (nat i))"

fun js_string_lt :: "string \<Rightarrow> string \<Rightarrow> bool" where
  "js_string_lt [] [] = False"
| "js_string_lt [] (y # ys) = True"
| "js_string_lt (x # xs) [] = False"
| "js_string_lt (x # xs) (y # ys) =
     ((of_char x :: nat) < of_char y \<or> (x = y \<and> js_string_lt xs ys))"

definition js_lt :: "BigNumber \<Rightarrow> BigNumber \<Rightarrow> bool" where
  "js_lt a b = js_string_lt (BigNumber_toString a) (BigNumber_toString b)"

subsection \<open>Loose equality and lodash \<open>includes\<close> on a trade's tokenIn\<close>

text \<open>
  The declaration of \<open>ExtendedEnabledTrade\<close> is not part of the sources at hand. The
  solvers compare \<open>_tokenIn\<close> with a string by \<open>==\<close> and hand it to \<open>_.includes\<close>, which
  accepts a string as well as an array, so both shapes are modelled.
\<close>

datatype token_in = TokenString string | TokenArray "string list"

record ExtendedEnabledTrade =
  trade_strategy :: address
  trade_tokenIn :: token_in
  trade_tokenOut :: address

text \<open>\<open>Array.prototype.join\<close> with the default separator.\<close>

fun js_join :: "string list \<Rightarrow> string" where
  "js_join [] = []"
| "js_join [x] = x"
| "js_join (x # y # ys) = x @ CHR '','' # js_join (y # ys)"

text \<open>
  \<open>x == s\<close> for a string \<open>s\<close>: two strings are compared as they are; an array is first
  converted to a primitive, which is its \<open>join\<close>.
\<close>

fun js_loose_eq :: "token_in \<Rightarrow> string \<Rightarrow> bool" where
  "js_loose_eq (TokenString t) s = (t = s)"
| "js_loose_eq (TokenArray ts) s = (js_join ts = s)"

text \<open>\<open>String.prototype.indexOf(v) > -1\<close>: \<open>v\<close> occurs in the string as a contiguous run.\<close>

fun string_includes :: "string \<Rightarrow> string \<Rightarrow> bool" where
  "string_includes [] v = (v = [])"
| "string_includes (c # cs) v = (prefix v (c # cs) \<or> string_includes cs v)"

text \<open>
  \<open>_.includes(collection, value)\<close>: on a string the substring search, on an array the
  search for an element that is the same value.
\<close>

fun lodash_includes :: "token_in \<Rightarrow> string \<Rightarrow> bool" where
  "lodash_includes (TokenString t) v = string_includes t v"
| "lodash_includes (TokenArray ts) v = (v \<in> set ts)"

section \<open>The multicall solvers\<close>

subsection \<open>Transactions, quotes and the forked chain\<close>

text \<open>
  Calldata is kept as the call it encodes: the contract method with its arguments, or the
  opaque bytes a quote came with.
\<close>

datatype calldata =
    Erc20_transfer address BigNumber
  | Erc20_approve address BigNumber
  | Remove_liquidity_one_coin BigNumber int int
  | Vault_withdraw BigNumber address BigNumber
  | Weth_withdraw BigNumber
  | Add_liquidity "BigNumber list" int bool address
  | Quote_data string

record tx =
  tx_to :: address
  tx_data :: calldata
  tx_value :: "BigNumber option"

text \<open>\<open>slippagePercentage\<close> is the JavaScript number \<open>10 / 100\<close>, kept as the two operands.\<close>

record quote_request =
  chainId :: int
  sellToken :: address
  buyToken :: address
  sellAmount :: BigNumber
  slippagePercentage :: "int \<times> int"

record quote_response =
  quote_data :: string
  allowanceTarget :: address

text \<open>
  What a solver does to the outside, in program order: the accounts it impersonates, the
  transactions it sends in the simulation (with the signer), the quotes it requests.
\<close>

datatype event = Impersonated address | Sent address tx | Quoted quote_request

text \<open>
  \<open>Shrug\<close> is the solver's own \<open>throw ':shrug:'\<close>; \<open>Rejected\<close> is an awaited call that
  throws, which no solver catches.
\<close>

datatype solve_error = Shrug | Rejected

text \<open>
  The fork the solver runs against, over any state \<open>'w\<close>. \<open>impersonate\<close> says whether the
  account could be impersonated (the solver throws when not). A read returns \<open>None\<close> when
  the call throws; a transaction gives the next state, or \<open>None\<close> when it throws; a quote
  request returns \<open>None\<close> when the provider throws. The first argument of \<open>balanceOf\<close> and
  of \<open>allowance\<close> is the token contract.
\<close>

record 'w chain =
  impersonate :: "address \<Rightarrow> 'w \<Rightarrow> bool"
  balanceOf :: "address \<Rightarrow> address \<Rightarrow> 'w \<Rightarrow> BigNumber option"
  allowance :: "address \<Rightarrow> address \<Rightarrow> address \<Rightarrow> 'w \<Rightarrow> BigNumber option"
  sendTransaction :: "address \<Rightarrow> tx \<Rightarrow> 'w \<Rightarrow> 'w option"
  zrx_quote :: "quote_request \<Rightarrow> 'w \<Rightarrow> quote_response option"

text \<open>
  A solver step takes the chain state and the events so far, and either throws (with the
  events up to the throw) or returns a value with the new state and events.
\<close>

type_synonym ('w, 'a) sim =
  "'w \<times> event list \<Rightarrow> solve_error \<times> event list + 'a \<times> 'w \<times> event list"

definition sim_return :: "'a \<Rightarrow> ('w, 'a) sim" where
  "sim_return x = (\<lambda>(w, l). Inr (x, w, l))"

definition sim_throw :: "solve_error \<Rightarrow> ('w, 'a) sim" where
  "sim_throw e = (\<lambda>(w, l). Inl (e, l))"

definition sim_bind :: "('w, 'a) sim \<Rightarrow> ('a \<Rightarrow> ('w, 'b) sim) \<Rightarrow> ('w, 'b) sim" where
  "sim_bind m f = (\<lambda>s. case m s of Inl e \<Rightarrow> Inl e | Inr (x, w, l) \<Rightarrow> f x (w, l))"

definition sim_impersonate :: "'w chain \<Rightarrow> address \<Rightarrow> ('w, unit) sim" where
  "sim_impersonate c a = (\<lambda>(w, l).
     if impersonate c a w then Inr ((), w, l @ [Impersonated a])
     else Inl (Rejected, l @ [Impersonated a]))"

definition sim_balanceOf :: "'w chain \<Rightarrow> address \<Rightarrow> address \<Rightarrow> ('w, BigNumber) sim" where
  "sim_balanceOf c token holder = (\<lambda>(w, l).
     case balanceOf c token holder w of None \<Rightarrow> Inl (Rejected, l) | Some n \<Rightarrow> Inr (n, w, l))"

definition sim_allowance ::
    "'w chain \<Rightarrow> address \<Rightarrow> address \<Rightarrow> address \<Rightarrow> ('w, BigNumber) sim" where
  "sim_allowance c token owner spender = (\<lambda>(w, l).
     case allowance c token owner spender w of
       None \<Rightarrow> Inl (Rejected, l)
     | Some n \<Rightarrow> Inr (n, w, l))"

definition sim_send :: "'w chain \<Rightarrow> address \<Rightarrow> tx \<Rightarrow> ('w, unit) sim" where
  "sim_send c signer t = (\<lambda>(w, l).
     case sendTransaction c signer t w of
       None \<Rightarrow> Inl (Rejected, l @ [Sent signer t])
     | Some w' \<Rightarrow> Inr ((), w', l @ [Sent signer t]))"

definition sim_quote :: "'w chain \<Rightarrow> quote_request \<Rightarrow> ('w, quote_response) sim" where
  "sim_quote c r = (\<lambda>(w, l).
     case zrx_quote c r w of
       None \<Rightarrow> Inl (Rejected, l @ [Quoted r])
     | Some q \<Rightarrow> Inr (q, w, l @ [Quoted r]))"

text \<open>The events of an outcome, thrown or returned.\<close>

fun events_of :: "solve_error \<times> event list + 'a \<times> 'w \<times> event list \<Rightarrow> event list" where
  "events_of (Inl (e, l)) = l"
| "events_of (Inr (x, w, l)) = l"

text \<open>The transactions the simulation sent from one signer, in order.\<close>

fun sent_by :: "address \<Rightarrow> event list \<Rightarrow> tx list" where
  "sent_by a [] = []"
| "sent_by a (Sent signer t # es) = (if signer = a then t # sent_by a es else sent_by a es)"
| "sent_by a (e # es) = sent_by a es"

text \<open>
  The transactions a contract binding builds, sent or only populated. A transaction is
  kept as target, calldata and value; the \<open>from\<close> that a populated transaction also
  carries is the address of the signer the binding is connected to, the multicall swapper
  for every populated transaction of the solvers.
\<close>

definition transfer_tx :: "address \<Rightarrow> address \<Rightarrow> BigNumber \<Rightarrow> tx" where
  "transfer_tx token recipient amount =
     \<lparr>tx_to = token, tx_data = Erc20_transfer recipient amount, tx_value = None\<rparr>"

definition approve_tx :: "address \<Rightarrow> address \<Rightarrow> BigNumber \<Rightarrow> tx" where
  "approve_tx token spender amount =
     \<lparr>tx_to = token, tx_data = Erc20_approve spender amount, tx_value = None\<rparr>"

definition remove_liquidity_one_coin_tx :: "address \<Rightarrow> BigNumber \<Rightarrow> int \<Rightarrow> int \<Rightarrow> tx" where
  "remove_liquidity_one_coin_tx pool amount i min_amount =
     \<lparr>tx_to = pool, tx_data = Remove_liquidity_one_coin amount i min_amount, tx_value = None\<rparr>"

definition vault_withdraw_tx :: "address \<Rightarrow> BigNumber \<Rightarrow> address \<Rightarrow> BigNumber \<Rightarrow> tx" where
  "vault_withdraw_tx vault maxShares recipient maxLoss =
     \<lparr>tx_to = vault, tx_data = Vault_withdraw maxShares recipient maxLoss, tx_value = None\<rparr>"

definition weth_withdraw_tx :: "address \<Rightarrow> BigNumber \<Rightarrow> tx" where
  "weth_withdraw_tx weth amount =
     \<lparr>tx_to = weth, tx_data = Weth_withdraw amount, tx_value = None\<rparr>"

definition add_liquidity_tx ::
    "address \<Rightarrow> BigNumber list \<Rightarrow> int \<Rightarrow> bool \<Rightarrow> address \<Rightarrow> BigNumber \<Rightarrow> tx" where
  "add_liquidity_tx pool amounts min_mint use_eth receiver v =
     \<lparr>tx_to = pool, tx_data = Add_liquidity amounts min_mint use_eth receiver,
      tx_value = Some v\<rparr>"

text \<open>
  The populated \<open>execute\<close> call of the trade factory: one trade descriptor or a list of
  them, the swapper, and the payload that \<open>mergeTransactions\<close> made of the transactions.
  \<open>mergeTransactions\<close> is not part of the sources at hand and is a parameter of \<open>solve\<close>.
\<close>

record trade_descriptor =
  d_strategy :: address
  d_tokenIn :: token_in
  d_tokenOut :: address
  d_amount :: BigNumber
  d_minAmountOut :: BigNumber

datatype 'p execute_call =
    Execute_one trade_descriptor address 'p
  | Execute_many "trade_descriptor list" address 'p

record 'p TradeSetup =
  swapperName :: string
  transaction_to :: address
  transaction :: "'p execute_call"

fun merged_payload :: "'p execute_call \<Rightarrow> 'p" where
  "merged_payload (Execute_one d swapper p) = p"
| "merged_payload (Execute_many ds swapper p) = p"

fun trade_descriptors :: "'p execute_call \<Rightarrow> trade_descriptor list" where
  "trade_descriptors (Execute_one d swapper p) = [d]"
| "trade_descriptors (Execute_many ds swapper p) = ds"

text \<open>What an outcome returned, if it did.\<close>

fun returned :: "solve_error \<times> event list + 'a \<times> 'w \<times> event list \<Rightarrow> 'a option" where
  "returned (Inl e) = None"
| "returned (Inr (x, w, l)) = Some x"


subsection \<open>ThreePoolCrvMulticall: addresses and \<open>match\<close>\<close>

definition tp_threeCrv :: address where
  "tp_threeCrv = ''0x6c3F90f043a72FA612cbac8115EE7e52BDe6E490''"

definition tp_yveCrv :: address where
  "tp_yveCrv = ''0xc5bDdf9843308380375a611c18B50Fb9341f502A''"

definition tp_yvBoost :: address where
  "tp_yvBoost = ''0x9d409a0A012CFbA9B15F6D4B36Ac57A46966Ab9a''"

definition tp_strategy :: address where
  "tp_strategy = ''0x91C3424A608439FBf3A91B6d954aF0577C1B9B8A''"

definition tp_crv3Pool :: address where
  "tp_crv3Pool = ''0xbEbc44782C7dB0a1A60Cb6fe97d0b483032FF1C7''"

definition tp_usdc :: address where
  "tp_usdc = ''0xA0b86991c6218b36c1d19D4a2e9Eb0cE3606eB48''"

definition tp_multicallSwapper :: address where
  "tp_multicallSwapper = ''0xceB202F25B50e8fAF212dE3CA6C53512C37a01D2''"

definition tp_zrxContract :: address where
  "tp_zrxContract = ''0xDef1C0ded9bec7F1a1670819833240f027b25EfF''"

definition ThreePoolCrvMulticall_match :: "ExtendedEnabledTrade \<Rightarrow> bool" where
  "ThreePoolCrvMulticall_match trade =
     (trade_strategy trade = tp_strategy \<and>
      js_loose_eq (trade_tokenIn trade) tp_threeCrv \<and>
      trade_tokenOut trade = tp_yveCrv)"

subsection \<open>ThreePoolCrvMulticall: \<open>solve\<close>\<close>

definition ThreePoolCrvMulticall_solve ::
    "'w chain \<Rightarrow> (tx list \<Rightarrow> 'p) \<Rightarrow> ExtendedEnabledTrade \<Rightarrow> address \<Rightarrow> ('w, 'p TradeSetup) sim"
where
  "ThreePoolCrvMulticall_solve c mergeTransactions trade tradeFactory =
     sim_bind (sim_impersonate c tp_strategy) (\<lambda>_.
     sim_bind (sim_impersonate c tp_multicallSwapper) (\<lambda>_.
     sim_bind (sim_balanceOf c tp_threeCrv (trade_strategy trade)) (\<lambda>amount.
     sim_bind (sim_send c tp_strategy (transfer_tx tp_threeCrv tp_multicallSwapper amount)) (\<lambda>_.
     sim_bind (sim_balanceOf c tp_usdc tp_multicallSwapper) (\<lambda>usdcBalancePre.
     sim_bind (sim_send c tp_multicallSwapper
                 (remove_liquidity_one_coin_tx tp_crv3Pool amount 1 0)) (\<lambda>_.
     sim_bind (sim_balanceOf c tp_usdc tp_multicallSwapper) (\<lambda>usdcBalanceTotal.
     let usdcBalance0 = usdcBalanceTotal - usdcBalancePre;
         usdcBalance =
           (if usdcBalanceTotal = usdcBalance0 then usdcBalance0 - 1 else usdcBalance0)
     in
     sim_bind (sim_quote c
                 \<lparr>chainId = 1, sellToken = tp_usdc, buyToken = tp_yvBoost,
                  sellAmount = usdcBalance, slippagePercentage = (10, 100)\<rparr>) (\<lambda>q.
     let zrxAllowanceTarget = allowanceTarget q;
         tx = \<lparr>tx_to = tp_zrxContract, tx_data = Quote_data (quote_data q), tx_value = None\<rparr>
     in
     sim_bind (sim_allowance c tp_usdc tp_multicallSwapper zrxAllowanceTarget) (\<lambda>a.
     let approveUsdc = js_lt a usdcBalance in
     sim_bind (if approveUsdc
               then sim_send c tp_multicallSwapper
                      (approve_tx tp_usdc zrxAllowanceTarget MaxUint256)
               else sim_return ()) (\<lambda>_.
     sim_bind (sim_send c tp_multicallSwapper tx) (\<lambda>_.
     sim_bind (sim_balanceOf c tp_yvBoost tp_multicallSwapper) (\<lambda>yvBoostBalance.
     sim_bind (sim_send c tp_multicallSwapper
                 (vault_withdraw_tx tp_yvBoost MaxUint256 tp_multicallSwapper 0)) (\<lambda>_.
     sim_bind (sim_balanceOf c tp_yveCrv tp_multicallSwapper) (\<lambda>yveCrvBalance.
     let transactions =
           [remove_liquidity_one_coin_tx tp_crv3Pool amount 1 0] @
           (if approveUsdc then [approve_tx tp_usdc zrxAllowanceTarget MaxUint256] else []) @
           [tx] @
           [vault_withdraw_tx tp_yvBoost MaxUint256 tp_strategy 0];
         data = mergeTransactions transactions
     in
     sim_return
       \<lparr>swapperName = ''ThreePoolCrvMulticall'',
        transaction_to = tradeFactory,
        transaction =
          Execute_one
            \<lparr>d_strategy = trade_strategy trade, d_tokenIn = trade_tokenIn trade,
             d_tokenOut = trade_tokenOut trade, d_amount = amount,
             d_minAmountOut = yveCrvBalance\<rparr>
            tp_multicallSwapper data\<rparr>))))))))))))))"

subsection \<open>CurveSpellEthMulticall: addresses and \<open>match\<close>\<close>

definition cs_crvSpellEth :: address where
  "cs_crvSpellEth = ''0x8282BD15dcA2EA2bDf24163E8f2781B30C43A2ef''"

definition cs_strategy :: address where
  "cs_strategy = ''0xeDB4B647524FC2B9985019190551b197c6AB6C5c''"

definition cs_curveSwap :: address where
  "cs_curveSwap = ''0x98638FAcf9a3865cd033F36548713183f6996122''"

definition cs_crv :: address where
  "cs_crv = ''0xD533a949740bb3306d119CC777fa900bA034cd52''"

definition cs_cvx :: address where
  "cs_cvx = ''0x4e3FBD56CD56c3e72c1403e103b45Db9da5B9D2B''"

definition cs_weth :: address where
  "cs_weth = ''0xC02aaA39b223FE8D0A0e5C4F27eAD9083C756Cc2''"

definition cs_multicallSwapper :: address where
  "cs_multicallSwapper = ''0x7F036fa7B01E7c0286AFd4c7f756dd367E90a5f8''"

definition cs_zrxContract :: address where
  "cs_zrxContract = ''0xDef1C0ded9bec7F1a1670819833240f027b25EfF''"

definition CurveSpellEthMulticall_match :: "ExtendedEnabledTrade \<Rightarrow> bool" where
  "CurveSpellEthMulticall_match trade =
     (trade_strategy trade = cs_strategy \<and>
      lodash_includes (trade_tokenIn trade) cs_crv \<and>
      lodash_includes (trade_tokenIn trade) cs_cvx \<and>
      trade_tokenOut trade = cs_crvSpellEth)"

subsection \<open>CurveSpellEthMulticall: \<open>solve\<close>\<close>

definition CurveSpellEthMulticall_solve ::
    "'w chain \<Rightarrow> (tx list \<Rightarrow> 'p) \<Rightarrow> ExtendedEnabledTrade \<Rightarrow> address \<Rightarrow> ('w, 'p TradeSetup) sim"
where
  "CurveSpellEthMulticall_solve c mergeTransactions trade tradeFactory =
     sim_bind (sim_impersonate c cs_strategy) (\<lambda>_.
     sim_bind (sim_impersonate c cs_multicallSwapper) (\<lambda>_.
     sim_bind (sim_balanceOf c cs_crv cs_strategy) (\<lambda>crvBalance.
     sim_bind (sim_balanceOf c cs_cvx cs_strategy) (\<lambda>cvxBalance.
     sim_bind (if crvBalance \<le> 0 \<and> cvxBalance \<le> 0 then sim_throw Shrug
               else sim_return ()) (\<lambda>_.
     sim_bind (sim_send c cs_strategy (transfer_tx cs_crv cs_multicallSwapper crvBalance)) (\<lambda>_.
     sim_bind (sim_send c cs_strategy (transfer_tx cs_cvx cs_multicallSwapper cvxBalance)) (\<lambda>_.
     sim_bind (sim_quote c
                 \<lparr>chainId = 1, sellToken = cs_crv, buyToken = cs_weth,
                  sellAmount = crvBalance, slippagePercentage = (10, 100)\<rparr>) (\<lambda>qCrv.
     let zrxCrvAllowanceTarget = allowanceTarget qCrv in
     sim_bind (sim_allowance c cs_crv cs_multicallSwapper zrxCrvAllowanceTarget) (\<lambda>aCrv.
     let approveCrv = js_lt aCrv crvBalance in
     sim_bind (if approveCrv
               then sim_send c cs_multicallSwapper
                      (approve_tx cs_crv zrxCrvAllowanceTarget MaxUint256)
               else sim_return ()) (\<lambda>_.
     let crvToWethTx =
           \<lparr>tx_to = cs_zrxContract, tx_data = Quote_data (quote_data qCrv), tx_value = None\<rparr>
     in
     sim_bind (sim_send c cs_multicallSwapper crvToWethTx) (\<lambda>_.
     sim_bind (sim_quote c
                 \<lparr>chainId = 1, sellToken = cs_cvx, buyToken = cs_weth,
                  sellAmount = cvxBalance, slippagePercentage = (10, 100)\<rparr>) (\<lambda>qCvx.
     let zrxCvxAllowanceTarget = allowanceTarget qCvx in
     sim_bind (sim_allowance c cs_crv cs_multicallSwapper zrxCvxAllowanceTarget) (\<lambda>aCvx.
     let approveCvx = js_lt aCvx cvxBalance in
     sim_bind (if approveCvx
               then sim_send c cs_multicallSwapper
                      (approve_tx cs_cvx zrxCvxAllowanceTarget MaxUint256)
               else sim_return ()) (\<lambda>_.
     let cvxToWethTx =
           \<lparr>tx_to = cs_zrxContract, tx_data = Quote_data (quote_data qCvx), tx_value = None\<rparr>
     in
     sim_bind (sim_send c cs_multicallSwapper cvxToWethTx) (\<lambda>_.
     sim_bind (sim_balanceOf c cs_weth cs_multicallSwapper) (\<lambda>wethBalance.
     sim_bind (sim_send c cs_multicallSwapper (weth_withdraw_tx cs_weth wethBalance)) (\<lambda>_.
     sim_bind (sim_send c cs_multicallSwapper
                 (add_liquidity_tx cs_curveSwap [wethBalance, 0] 0 True cs_strategy
                    wethBalance)) (\<lambda>_.
     let transactions =
           (if approveCrv then [approve_tx cs_crv zrxCrvAllowanceTarget MaxUint256] else []) @
           [crvToWethTx] @
           (if approveCvx then [approve_tx cs_cvx zrxCvxAllowanceTarget MaxUint256] else []) @
           [cvxToWethTx] @
           [weth_withdraw_tx cs_weth wethBalance] @
           [add_liquidity_tx cs_curveSwap [wethBalance, 0] 0 True cs_strategy wethBalance];
         data = mergeTransactions transactions
     in
     sim_return
       \<lparr>swapperName = ''CurveSpellEthMulticall'',
        transaction_to = tradeFactory,
        transaction =
          Execute_many
            [\<lparr>d_strategy = cs_strategy, d_tokenIn = TokenString cs_crv,
              d_tokenOut = trade_tokenOut trade, d_amount = crvBalance,
              d_minAmountOut = 0\<rparr>,
             \<lparr>d_strategy = cs_strategy, d_tokenIn = TokenString cs_cvx,
              d_tokenOut = trade_tokenOut trade, d_amount = cvxBalance,
              d_minAmountOut = 0\<rparr>]
            cs_multicallSwapper data\<rparr>))))))))))))))))))"

text \<open>
  The reading of \<open>match\<close> that fixes one tokenIn and a set of accepted tokenOut values:
  the trade's strategy and tokenIn are the configured ones and its tokenOut is in the set.
\<close>

definition match_by_tokenOut_set ::
    "address \<Rightarrow> token_in \<Rightarrow> address set \<Rightarrow> ExtendedEnabledTrade \<Rightarrow> bool" where
  "match_by_tokenOut_set s tin outs trade =
     (trade_strategy trade = s \<and> trade_tokenIn trade = tin \<and> trade_tokenOut trade \<in> outs)"

subsection \<open>Properties of solver steps, and scripted chains\<close>

text \<open>
  A step is plain when it only adds events to those already there and never throws
  \<open>Shrug\<close>; it is total when it always returns. A chain answers when none of its calls
  throws.
\<close>

definition sim_plain :: "('w, 'a) sim \<Rightarrow> bool" where
  "sim_plain m =
     (\<forall>w l. (\<exists>rest. events_of (m (w, l)) = l @ rest) \<and> (\<forall>l'. m (w, l) \<noteq> Inl (Shrug, l')))"

definition sim_total :: "('w, 'a) sim \<Rightarrow> bool" where
  "sim_total m = (\<forall>s. \<exists>r. m s = Inr r)"

definition chain_answers :: "'w chain \<Rightarrow> bool" where
  "chain_answers c =
     ((\<forall>a w. impersonate c a w) \<and>
      (\<forall>t h w. balanceOf c t h w \<noteq> None) \<and>
      (\<forall>t h s w. allowance c t h s w \<noteq> None) \<and>
      (\<forall>a t w. sendTransaction c a t w \<noteq> None) \<and>
      (\<forall>r w. zrx_quote c r w \<noteq> None))"

text \<open>A step with its result changed, and a trade setup with its payload changed.\<close>

definition sim_map :: "('a \<Rightarrow> 'b) \<Rightarrow> ('w, 'a) sim \<Rightarrow> ('w, 'b) sim" where
  "sim_map g m = (\<lambda>s. case m s of Inl e \<Rightarrow> Inl e | Inr (x, w, l) \<Rightarrow> Inr (g x, w, l))"

definition with_merger :: "('p \<Rightarrow> 'q) \<Rightarrow> 'p TradeSetup \<Rightarrow> 'q TradeSetup" where
  "with_merger g r =
     \<lparr>swapperName = swapperName r, transaction_to = transaction_to r,
      transaction =
        (case transaction r of
           Execute_one d swapper p \<Rightarrow> Execute_one d swapper (g p)
         | Execute_many ds swapper p \<Rightarrow> Execute_many ds swapper (g p))\<rparr>"

text \<open>The transactions an outcome handed to the merger, when the merger is the identity.\<close>

definition populated_transactions ::
    "solve_error \<times> event list + (tx list) TradeSetup \<times> 'w \<times> event list \<Rightarrow> tx list option" where
  "populated_transactions out =
     (case returned out of
        None \<Rightarrow> None
      | Some r \<Rightarrow> Some (merged_payload (transaction r)))"

text \<open>
  A chain that answers every call from a script. Its state is the number of transactions
  sent so far; balances depend on token, holder and state, allowances on token and state;
  every quote is the same.
\<close>

definition scripted_quote :: quote_response where
  "scripted_quote =
     \<lparr>quote_data = ''0xd9627aa4'',
      allowanceTarget = ''0xDef1C0ded9bec7F1a1670819833240f027b25EfF''\<rparr>"

definition scripted_chain ::
    "(address \<Rightarrow> address \<Rightarrow> nat \<Rightarrow> BigNumber) \<Rightarrow> (address \<Rightarrow> nat \<Rightarrow> BigNumber) \<Rightarrow> nat chain" where
  "scripted_chain balances allowances =
     \<lparr>impersonate = (\<lambda>a n. True),
      balanceOf = (\<lambda>token holder n. Some (balances token holder n)),
      allowance = (\<lambda>token owner spender n. Some (allowances token n)),
      sendTransaction = (\<lambda>signer t n. Some (Suc n)),
      zrx_quote = (\<lambda>r n. Some scripted_quote)\<rparr>"

text \<open>The same chain with a quote provider that refuses a sell amount of zero.\<close>

definition refusing_chain ::
    "(address \<Rightarrow> address \<Rightarrow> nat \<Rightarrow> BigNumber) \<Rightarrow> (address \<Rightarrow> nat \<Rightarrow> BigNumber) \<Rightarrow> nat chain" where
  "refusing_chain balances allowances =
     (scripted_chain balances allowances)
       \<lparr>zrx_quote := (\<lambda>r n. if sellAmount r = 0 then None else Some scripted_quote)\<rparr>"

text \<open>
  For the three-pool solver: the swapper holds \<open>pre\<close> USDC until liquidity is removed
  (the second transaction) and \<open>post\<close> afterwards; every other balance is 500.
\<close>

definition tp_balances :: "BigNumber \<Rightarrow> BigNumber \<Rightarrow> address \<Rightarrow> address \<Rightarrow> nat \<Rightarrow> BigNumber" where
  "tp_balances pre post token holder n =
     (if token = tp_usdc then (if n < 2 then pre else post) else 500)"

definition tp_trade :: ExtendedEnabledTrade where
  "tp_trade =
     \<lparr>trade_strategy = tp_strategy, trade_tokenIn = TokenString tp_threeCrv,
      trade_tokenOut = tp_yveCrv\<rparr>"

text \<open>For the two-source solver: the strategy's CRV and CVX, every other balance is 7.\<close>

definition cs_balances :: "BigNumber \<Rightarrow> BigNumber \<Rightarrow> address \<Rightarrow> address \<Rightarrow> nat \<Rightarrow> BigNumber" where
  "cs_balances crvBalance cvxBalance token holder n =
     (if token = cs_crv then crvBalance else if token = cs_cvx then cvxBalance else 7)"

definition cs_allowances :: "BigNumber \<Rightarrow> BigNumber \<Rightarrow> address \<Rightarrow> nat \<Rightarrow> BigNumber" where
  "cs_allowances crvAllowance cvxAllowance token n =
     (if token = cs_crv then crvAllowance else cvxAllowance)"

definition cs_trade :: ExtendedEnabledTrade where
  "cs_trade =
     \<lparr>trade_strategy = cs_strategy, trade_tokenIn = TokenArray [cs_crv, cs_cvx],
      trade_tokenOut = cs_crvSpellEth\<rparr>"

section \<open>The detached harvest worker\<close>

subsection \<open>Configuration and the job contract\<close>

text \<open>
  \<open>harvestConfigurations\<close> comes from a module that is not part of the sources at hand;
  it is a parameter. The worker reads two fields of an entry, \<open>address\<close> (here
  \<open>hc_address\<close>) and \<open>tokensBeingDumped\<close>.
\<close>

record HarvestConfiguration =
  hc_address :: string
  tokensBeingDumped :: "string list"

definition toLowerCase :: "string \<Rightarrow> string" where
  "toLowerCase s =
     map (\<lambda>c. if 65 \<le> (of_char c :: nat) \<and> (of_char c :: nat) \<le> 90
              then char_of ((of_char c :: nat) + 32) else c) s"

text \<open>\<open>harvestConfigurations.find\<close>: the first entry whose address is the strategy's, case aside.\<close>

definition find_configuration ::
    "HarvestConfiguration list \<Rightarrow> string \<Rightarrow> HarvestConfiguration option" where
  "find_configuration harvestConfigurations strategy =
     find (\<lambda>h. toLowerCase (hc_address h) = toLowerCase strategy) harvestConfigurations"

definition sbeetStrats :: "string list" where
  "sbeetStrats =
     [''0xB905eabA7A23424265638bdACFFE55564c7B299B'',
      ''0x56aF79e182a7f98ff6d0bF99d589ac2CabA24e2d'',
      ''0x85c307D24da7086c41537b994de9bFc4C21BAEB5'',
      ''0xBd3791F3Dcf9DD5633cd30662381C80a2Cd945bd'',
      ''0xbBdc83357287a29Aae30cCa520D4ed6C750a2a11'',
      ''0x4003eE222d44953B0C3eB61318dD211a4A6f109f'',
      ''0x36E74086C388305CEcdeff83d6cf31a2762A3c91'',
      ''0x1c13C43f8F2fa0CdDEE6DFF6F785757650B8c2BF'',
      ''0xfD7E0cCc4dE0E3022F47834d7f0122274c37a0d1'',
      ''0x8Bb79E595E1a21d160Ba3f7f6C94efF1484FB4c9'']"

text \<open>
  The job contract and the local clock, over any state \<open>'w\<close> of the outside. Every awaited
  call returns its answer, \<open>None\<close> when it throws, and the state the outside is in
  afterwards. \<open>job_lastWorkAt\<close> is the call with its \<open>toNumber()\<close>; \<open>job_work\<close> takes the
  gas limit and answers with the transaction hash; \<open>clock_ms\<close> is the time \<open>moment()\<close>
  reads, in milliseconds. The code between two awaited calls runs at one reading of the
  clock.
\<close>

record 'w job =
  job_strategies :: "'w \<Rightarrow> string list option \<times> 'w"
  job_lastWorkAt :: "string \<Rightarrow> 'w \<Rightarrow> int option \<times> 'w"
  job_workable :: "string \<Rightarrow> 'w \<Rightarrow> bool option \<times> 'w"
  job_estimateGas_work :: "string \<Rightarrow> 'w \<Rightarrow> BigNumber option \<times> 'w"
  job_work :: "string \<Rightarrow> BigNumber \<Rightarrow> 'w \<Rightarrow> string option \<times> 'w"
  clock_ms :: "'w \<Rightarrow> int"

datatype run_error = Rejected_call | Configuration_mismatch

text \<open>\<open>BigNumber.div\<close> rounds towards zero.\<close>

definition BigNumber_div :: "BigNumber \<Rightarrow> BigNumber \<Rightarrow> BigNumber" where
  "BigNumber_div a b = sgn a * sgn b * (\<bar>a\<bar> div \<bar>b\<bar>)"

text \<open>\<open>moment(ms).unix()\<close>: whole seconds, rounded down.\<close>

definition unix :: "int \<Rightarrow> int" where
  "unix ms = ms div 1000"

text \<open>\<open>moment.duration('2.5', 'minutes')\<close>, in milliseconds.\<close>

definition REWARD_DUMPED_COOLDOWN :: int where
  "REWARD_DUMPED_COOLDOWN = 150000"

subsection \<open>The last time each reward token was dumped\<close>

record lastWorkAt =
  lw_strategy :: string
  lw_timestamp :: int

definition getLastWorkAt :: "'w job \<Rightarrow> string \<Rightarrow> 'w \<Rightarrow> lastWorkAt option \<times> 'w" where
  "getLastWorkAt j strategy w =
     (case job_lastWorkAt j strategy w of
        (None, w') \<Rightarrow> (None, w')
      | (Some t, w') \<Rightarrow> (Some \<lparr>lw_strategy = strategy, lw_timestamp = t\<rparr>, w'))"

text \<open>
  \<open>Promise.all(strategies.map(getLastWorkAt))\<close>: every call is made, in the order of the
  list; the answers come in that order, and one call that throws makes the whole throw.
\<close>

fun getAllLastWorkAt :: "'w job \<Rightarrow> string list \<Rightarrow> 'w \<Rightarrow> lastWorkAt list option \<times> 'w" where
  "getAllLastWorkAt j [] w = (Some [], w)"
| "getAllLastWorkAt j (s # ss) w =
     (case getLastWorkAt j s w of (r, w') \<Rightarrow>
      (case getAllLastWorkAt j ss w' of (rs, w'') \<Rightarrow>
       (case (r, rs) of
          (Some x, Some xs) \<Rightarrow> (Some (x # xs), w'')
        | _ \<Rightarrow> (None, w''))))"

text \<open>
  A store into the map of last dumps, as it happens: the token, the value the map held for
  it, and the value stored. The list of stores is not in the script; it is kept beside
  the map so that each single update can be spoken about.
\<close>

type_synonym dump_store = "string \<times> int option \<times> int"

type_synonym dumps = "(string \<rightharpoonup> int) \<times> dump_store list"

text \<open>The body of the inner \<open>forEach\<close>: the token gets the timestamp when it has none or an older one.\<close>

definition noteDump :: "int \<Rightarrow> string \<Rightarrow> dumps \<Rightarrow> dumps" where
  "noteDump timestamp tokenBeingDumped d =
     (case d of (m, stores) \<Rightarrow>
      (case m tokenBeingDumped of
         None \<Rightarrow>
           (m(tokenBeingDumped \<mapsto> timestamp), stores @ [(tokenBeingDumped, None, timestamp)])
       | Some v \<Rightarrow>
           if timestamp > v
           then (m(tokenBeingDumped \<mapsto> timestamp),
                 stores @ [(tokenBeingDumped, Some v, timestamp)])
           else (m, stores)))"

fun mapLastDumps ::
    "HarvestConfiguration list \<Rightarrow> lastWorkAt list \<Rightarrow> dumps \<Rightarrow> run_error + dumps" where
  "mapLastDumps harvestConfigurations [] d = Inr d"
| "mapLastDumps harvestConfigurations (lw # lws) d =
     (case find_configuration harvestConfigurations (lw_strategy lw) of
        None \<Rightarrow> Inl Configuration_mismatch
      | Some h \<Rightarrow>
          mapLastDumps harvestConfigurations lws
            (fold (noteDump (lw_timestamp lw)) (tokensBeingDumped h) d))"

text \<open>The store after a work: the token gets the current time, whatever it held.\<close>

definition markDumped :: "int \<Rightarrow> string \<Rightarrow> dumps \<Rightarrow> dumps" where
  "markDumped now tokenBeingDumped d =
     (case d of (m, stores) \<Rightarrow>
        (m(tokenBeingDumped \<mapsto> now), stores @ [(tokenBeingDumped, m tokenBeingDumped, now)]))"

subsection \<open>Working the strategies\<close>

text \<open>
  The module's accumulators and the state of the outside. Two fields are not in the
  script: \<open>workSubmitted\<close> lists the \<open>work\<close> calls made, each with its gas limit, and
  \<open>dumpStores\<close> lists the stores into \<open>lastTimeRewardWasDumped\<close>.
\<close>

record 'w run_state =
  world :: 'w
  lastTimeRewardWasDumped :: "string \<rightharpoonup> int"
  worked :: "string list"
  notWorkable :: "string list"
  onLiquidityCooldown :: "string list"
  errorWhileWorked :: "string list"
  workSubmitted :: "(string \<times> BigNumber) list"
  dumpStores :: "dump_store list"

text \<open>
  The cooldown test of one strategy at clock reading \<open>now\<close>. A token without an entry
  compares with \<open>undefined\<close>, which is false.
\<close>

definition isStratOnLiquidityCooldown :: "int \<Rightarrow> string list \<Rightarrow> (string \<rightharpoonup> int) \<Rightarrow> bool" where
  "isStratOnLiquidityCooldown now tokens m =
     fold (\<lambda>tokenBeingDumped acc.
             acc \<or> (case m tokenBeingDumped of
                      None \<Rightarrow> False
                    | Some v \<Rightarrow> unix (now - REWARD_DUMPED_COOLDOWN) \<le> v))
       tokens False"

definition caught :: "string \<Rightarrow> 'w \<Rightarrow> 'w run_state \<Rightarrow> 'w run_state" where
  "caught strategy w st =
     st\<lparr>world := w, errorWhileWorked := errorWhileWorked st @ [strategy]\<rparr>"

text \<open>
  One turn of the loop, the \<open>try\<close> with its \<open>catch\<close>. A strategy without a configuration
  fails where its tokens are read, after the \<open>workable\<close> call. What the calls throw are
  error objects, whose message the \<open>catch\<close> can read.
\<close>

definition work_strategy ::
    "'w job \<Rightarrow> HarvestConfiguration list \<Rightarrow> string \<Rightarrow> 'w run_state \<Rightarrow> 'w run_state" where
  "work_strategy j harvestConfigurations strategy st =
     (case job_workable j strategy (world st) of
        (None, w1) \<Rightarrow> caught strategy w1 st
      | (Some workable, w1) \<Rightarrow>
          if \<not> workable then st\<lparr>world := w1, notWorkable := notWorkable st @ [strategy]\<rparr>
          else
            (case find_configuration harvestConfigurations strategy of
               None \<Rightarrow> caught strategy w1 st
             | Some h \<Rightarrow>
                 if isStratOnLiquidityCooldown (clock_ms j w1) (tokensBeingDumped h)
                      (lastTimeRewardWasDumped st)
                 then st\<lparr>world := w1,
                         onLiquidityCooldown := onLiquidityCooldown st @ [strategy]\<rparr>
                 else
                   (case job_estimateGas_work j strategy w1 of
                      (None, w2) \<Rightarrow> caught strategy w2 st
                    | (Some gasLimit, w2) \<Rightarrow>
                        (let limit = BigNumber_div (gasLimit * 110) 100;
                             st' = st\<lparr>workSubmitted := workSubmitted st @ [(strategy, limit)]\<rparr>
                         in
                         case job_work j strategy limit w2 of
                           (None, w3) \<Rightarrow> caught strategy w3 st'
                         | (Some hash, w3) \<Rightarrow>
                             (case fold (markDumped (unix (clock_ms j w3))) (tokensBeingDumped h)
                                     (lastTimeRewardWasDumped st, dumpStores st) of
                                (m, stores) \<Rightarrow>
                                  st'\<lparr>world := w3, lastTimeRewardWasDumped := m,
                                      dumpStores := stores,
                                      worked := worked st @ [strategy]\<rparr>)))))"

definition harvest_loop ::
    "'w job \<Rightarrow> HarvestConfiguration list \<Rightarrow> string list \<Rightarrow> 'w run_state \<Rightarrow> 'w run_state" where
  "harvest_loop j harvestConfigurations strategies st =
     fold (work_strategy j harvestConfigurations) strategies st"

text \<open>
  \<open>main\<close> up to the loop: the strategies of the job without the listed ones, their
  \<open>lastWorkAt\<close>, and the map of last dumps, with the accumulators as the module starts them.
  Getting the signer and connecting the contract come first in the script; they are part
  of what \<open>job_strategies\<close> stands for.
\<close>

definition before_loop ::
    "'w job \<Rightarrow> HarvestConfiguration list \<Rightarrow> 'w \<Rightarrow> run_error + string list \<times> 'w run_state" where
  "before_loop j harvestConfigurations w0 =
     (case job_strategies j w0 of
        (None, w1) \<Rightarrow> Inl Rejected_call
      | (Some all_strategies, w1) \<Rightarrow>
          (let strategies = filter (\<lambda>strategy. strategy \<notin> set sbeetStrats) all_strategies in
           case getAllLastWorkAt j strategies w1 of
             (None, w2) \<Rightarrow> Inl Rejected_call
           | (Some lastWorksAt, w2) \<Rightarrow>
               (case mapLastDumps harvestConfigurations lastWorksAt (Map.empty, []) of
                  Inl e \<Rightarrow> Inl e
                | Inr (m, stores) \<Rightarrow>
                    Inr (strategies,
                         \<lparr>world = w2, lastTimeRewardWasDumped = m, worked = [],
                          notWorkable = [], onLiquidityCooldown = [], errorWhileWorked = [],
                          workSubmitted = [], dumpStores = stores\<rparr>))))"

definition main :: "'w job \<Rightarrow> HarvestConfiguration list \<Rightarrow> 'w \<Rightarrow> run_error + 'w run_state" where
  "main j harvestConfigurations w0 =
     (case before_loop j harvestConfigurations w0 of
        Inl e \<Rightarrow> Inl e
      | Inr (strategies, st) \<Rightarrow> Inr (harvest_loop j harvestConfigurations strategies st))"

subsection \<open>Properties of a run, and scripted jobs\<close>

text \<open>
  The timestamps the map of last dumps is built from for one token: the \<open>lastWorkAt\<close> of
  the strategies whose configuration lists the token as being dumped.
\<close>

definition dumps_token :: "HarvestConfiguration list \<Rightarrow> string \<Rightarrow> lastWorkAt \<Rightarrow> bool" where
  "dumps_token harvestConfigurations token lw =
     (case find_configuration harvestConfigurations (lw_strategy lw) of
        None \<Rightarrow> False
      | Some h \<Rightarrow> token \<in> set (tokensBeingDumped h))"

definition dump_times :: "HarvestConfiguration list \<Rightarrow> lastWorkAt list \<Rightarrow> string \<Rightarrow> int list" where
  "dump_times harvestConfigurations lastWorksAt token =
     map lw_timestamp (filter (dumps_token harvestConfigurations token) lastWorksAt)"

text \<open>
  What the job contract answers to the \<open>lastWorkAt\<close> calls for the strategies, asked in
  turn from a state of the outside, and the state they leave.
\<close>

fun lastWorkAt_calls :: "'w job \<Rightarrow> string list \<Rightarrow> 'w \<Rightarrow> int option list \<times> 'w" where
  "lastWorkAt_calls j [] w = ([], w)"
| "lastWorkAt_calls j (s # ss) w =
     (case job_lastWorkAt j s w of (r, w') \<Rightarrow>
      (case lastWorkAt_calls j ss w' of (rs, w'') \<Rightarrow> (r # rs, w'')))"





text \<open>The four lists a run prints, when it gets that far.\<close>

definition printed_lists ::
    "run_error + 'w run_state \<Rightarrow> (string list \<times> string list \<times> string list \<times> string list) option" where
  "printed_lists r =
     (case r of
        Inl e \<Rightarrow> None
      | Inr st \<Rightarrow>
          Some (onLiquidityCooldown st, notWorkable st, worked st, errorWhileWorked st))"

text \<open>The \<open>work\<close> calls a run made, when it gets to the end.\<close>

definition work_calls :: "run_error + 'w run_state \<Rightarrow> (string \<times> BigNumber) list option" where
  "work_calls r = (case r of Inl e \<Rightarrow> None | Inr st \<Rightarrow> Some (workSubmitted st))"


text \<open>
  A job that answers from a script. Its state is the local clock in milliseconds; a
  \<open>work\<close> call takes a second, the other calls take no time. \<open>None\<close> in the script is
  a call that throws.
\<close>

definition scripted_job ::
    "string list option \<Rightarrow> (string \<Rightarrow> int option) \<Rightarrow> (string \<Rightarrow> bool option) \<Rightarrow>
     (string \<Rightarrow> BigNumber option) \<Rightarrow> (string \<Rightarrow> string option) \<Rightarrow> int job" where
  "scripted_job strategies lastWork workable gas hash =
     \<lparr>job_strategies = (\<lambda>w. (strategies, w)),
      job_lastWorkAt = (\<lambda>s w. (lastWork s, w)),
      job_workable = (\<lambda>s w. (workable s, w)),
      job_estimateGas_work = (\<lambda>s w. (gas s, w)),
      job_work = (\<lambda>s g w. (hash s, w + 1000)),
      clock_ms = (\<lambda>w. w)\<rparr>"


text \<open>Two strategies that dump the same reward token, a third that dumps another.\<close>

definition two_sharing :: "HarvestConfiguration list" where
  "two_sharing =
     [\<lparr>hc_address = ''0xAa01'', tokensBeingDumped = [''0xBoo'']\<rparr>,
      \<lparr>hc_address = ''0xAa02'', tokensBeingDumped = [''0xBoo'', ''0xSpirit'']\<rparr>,
      \<lparr>hc_address = ''0xAa03'', tokensBeingDumped = [''0xSpirit'']\<rparr>]"

definition last_works :: "string \<Rightarrow> int option" where
  "last_works s = (if s = ''0xAA01'' then Some 100 else if s = ''0xAA02'' then Some 200 else Some 50)"


section \<open>What \<open>match\<close> accepts\<close>

lemma string_includes_sublist: "string_includes t v = sublist v t"
  by (induction t) (simp_all add: sublist_Cons_right)

lemma js_join_eq_single:
  assumes "CHR '','' \<notin> set s" and "s \<noteq> []"
  shows "js_join ts = s \<longleftrightarrow> ts = [s]"
proof (cases ts rule: js_join.cases)
  case 1
  with assms show ?thesis by auto
next
  case (2 x)
  then show ?thesis by auto
next
  case (3 x y ys)
  have "CHR '','' \<in> set (js_join ts)" unfolding 3 by simp
  with assms 3 show ?thesis by auto
qed

lemma tp_threeCrv_plain: "CHR '','' \<notin> set tp_threeCrv" "tp_threeCrv \<noteq> []"
  by (simp_all add: tp_threeCrv_def)

text \<open>
  Claim C1, as the solvers have it. \<open>ThreePoolCrvMulticall.match\<close> is true exactly when
  the trade's strategy, tokenIn and tokenOut are the solver's strategy, 3Crv and yveCRV
  (a tokenIn that is the one-element array of 3Crv compares equal to it under \<open>==\<close>).
  \<open>CurveSpellEthMulticall.match\<close> is true exactly when the strategy is the solver's, the
  tokenOut equals crvSpellEth, and the tokenIn contains both CRV and CVX: as elements when
  it is an array, as substrings when it is a string. The containment test is on tokenIn;
  tokenOut is compared by equality in both solvers.
\<close>

theorem match_characterisation:
  "(ThreePoolCrvMulticall_match trade \<longleftrightarrow>
      trade_strategy trade = tp_strategy \<and>
      (trade_tokenIn trade = TokenString tp_threeCrv \<or> trade_tokenIn trade = TokenArray [tp_threeCrv]) \<and>
      trade_tokenOut trade = tp_yveCrv) \<and>
   (CurveSpellEthMulticall_match trade \<longleftrightarrow>
      trade_strategy trade = cs_strategy \<and>
      (case trade_tokenIn trade of
         TokenArray ts \<Rightarrow> cs_crv \<in> set ts \<and> cs_cvx \<in> set ts
       | TokenString t \<Rightarrow> sublist cs_crv t \<and> sublist cs_cvx t) \<and>
      trade_tokenOut trade = cs_crvSpellEth)"
proof -
  have tp: "js_loose_eq ti tp_threeCrv \<longleftrightarrow>
      ti = TokenString tp_threeCrv \<or> ti = TokenArray [tp_threeCrv]" for ti
    by (cases ti) (auto simp: js_join_eq_single [OF tp_threeCrv_plain])
  show ?thesis
    by (cases "trade_tokenIn trade")
       (auto simp: ThreePoolCrvMulticall_match_def CurveSpellEthMulticall_match_def tp
          string_includes_sublist)
qed

text \<open>
  The characterisation at two trades: the three-pool triple matches, and a two-source
  trade whose tokenOut is CRV, one of the two source tokens, does not.
\<close>

theorem match_characterisation_witness:
  "ThreePoolCrvMulticall_match
     \<lparr>trade_strategy = tp_strategy, trade_tokenIn = TokenString tp_threeCrv,
      trade_tokenOut = tp_yveCrv\<rparr>"
  by (rule match_characterisation [THEN conjunct1, THEN iffD2]) simp

text \<open>
  Claim C1 as stated fails for the two-source solver: no fixed tokenIn and set of tokenOut
  values describe its \<open>match\<close>, since it accepts the tokenIn arrays [CRV, CVX] and
  [CVX, CRV] alike.
\<close>

theorem match_tokenOut_set_counterexample:
  "\<not> (\<exists>tin outs. \<forall>trade.
        CurveSpellEthMulticall_match trade = match_by_tokenOut_set cs_strategy tin outs trade)"
proof
  assume "\<exists>tin outs. \<forall>trade.
        CurveSpellEthMulticall_match trade = match_by_tokenOut_set cs_strategy tin outs trade"
  then obtain tin outs where eq: "\<And>trade.
        CurveSpellEthMulticall_match trade = match_by_tokenOut_set cs_strategy tin outs trade"
    by blast
  let ?t1 = "\<lparr>trade_strategy = cs_strategy, trade_tokenIn = TokenArray [cs_crv, cs_cvx],
      trade_tokenOut = cs_crvSpellEth\<rparr>"
  let ?t2 = "\<lparr>trade_strategy = cs_strategy, trade_tokenIn = TokenArray [cs_cvx, cs_crv],
      trade_tokenOut = cs_crvSpellEth\<rparr>"
  have "CurveSpellEthMulticall_match ?t1"
    by (simp add: CurveSpellEthMulticall_match_def)
  then have t1: "tin = TokenArray [cs_crv, cs_cvx]"
    unfolding eq by (simp add: match_by_tokenOut_set_def)
  have "CurveSpellEthMulticall_match ?t2"
    by (simp add: CurveSpellEthMulticall_match_def)
  then have t2: "tin = TokenArray [cs_cvx, cs_crv]"
    unfolding eq by (simp add: match_by_tokenOut_set_def)
  have "cs_crv \<noteq> cs_cvx"
    by (simp add: cs_crv_def cs_cvx_def)
  with t1 show False
    unfolding t2 by simp
qed


section \<open>Running a solver\<close>

lemma sim_apply:
  "sim_return x (w, l) = Inr (x, w, l)"
  "sim_throw e (w, l) = Inl (e, l)"
  "sim_bind m f s = (case m s of Inl e \<Rightarrow> Inl e | Inr (x, w, l) \<Rightarrow> f x (w, l))"
  "sim_impersonate c a (w, l) =
     (if impersonate c a w then Inr ((), w, l @ [Impersonated a])
      else Inl (Rejected, l @ [Impersonated a]))"
  "sim_balanceOf c token holder (w, l) =
     (case balanceOf c token holder w of None \<Rightarrow> Inl (Rejected, l) | Some n \<Rightarrow> Inr (n, w, l))"
  "sim_allowance c token owner spender (w, l) =
     (case allowance c token owner spender w of
        None \<Rightarrow> Inl (Rejected, l) | Some n \<Rightarrow> Inr (n, w, l))"
  "sim_send c signer t (w, l) =
     (case sendTransaction c signer t w of
        None \<Rightarrow> Inl (Rejected, l @ [Sent signer t])
      | Some w' \<Rightarrow> Inr ((), w', l @ [Sent signer t]))"
  "sim_quote c r (w, l) =
     (case zrx_quote c r w of
        None \<Rightarrow> Inl (Rejected, l @ [Quoted r])
      | Some q \<Rightarrow> Inr (q, w, l @ [Quoted r]))"
  by (simp_all add: sim_return_def sim_throw_def sim_bind_def sim_impersonate_def
      sim_balanceOf_def sim_allowance_def sim_send_def sim_quote_def)

lemma sim_step:
  "m (w, l) = Inr (x, w', l') \<Longrightarrow> sim_bind m k (w, l) = k x (w', l')"
  by (simp add: sim_apply)

lemma sim_plainD:
  assumes "sim_plain m"
  shows "\<exists>rest. events_of (m (w, l)) = l @ rest" and "m (w, l) \<noteq> Inl (Shrug, l')"
  using assms by (simp_all add: sim_plain_def)

lemma sim_plain_return: "sim_plain (sim_return x)"
  by (simp add: sim_plain_def sim_apply)

lemma sim_plain_impersonate: "sim_plain (sim_impersonate c a)"
  by (simp add: sim_plain_def sim_apply)

lemma sim_plain_balanceOf: "sim_plain (sim_balanceOf c t h)"
  by (simp add: sim_plain_def sim_apply split: option.split)

lemma sim_plain_allowance: "sim_plain (sim_allowance c t h sp)"
  by (simp add: sim_plain_def sim_apply split: option.split)

lemma sim_plain_send: "sim_plain (sim_send c a t)"
  by (simp add: sim_plain_def sim_apply split: option.split)

lemma sim_plain_quote: "sim_plain (sim_quote c r)"
  by (simp add: sim_plain_def sim_apply split: option.split)

lemma sim_plain_if: "sim_plain m \<Longrightarrow> sim_plain m' \<Longrightarrow> sim_plain (if b then m else m')"
  by simp

lemma sim_plain_bind:
  assumes m: "sim_plain m" and f: "\<And>x. sim_plain (f x)"
  shows "sim_plain (sim_bind m f)"
  unfolding sim_plain_def
proof (intro allI conjI)
  fix w l
  show "\<exists>rest. events_of (sim_bind m f (w, l)) = l @ rest"
  proof (cases "m (w, l)")
    case (Inl e)
    obtain err l0 where "e = (err, l0)" by (cases e)
    with Inl sim_plainD(1) [OF m, of w l] show ?thesis
      by (simp add: sim_apply)
  next
    case (Inr r)
    obtain x w' l' where r: "r = (x, w', l')" by (cases r)
    from sim_plainD(1) [OF m, of w l] Inr r obtain r1 where "l' = l @ r1" by auto
    moreover from sim_plainD(1) [OF f, of x w' l'] obtain r2
      where "events_of (f x (w', l')) = l' @ r2" by auto
    ultimately show ?thesis using Inr r by (simp add: sim_apply)
  qed
  fix l'
  show "sim_bind m f (w, l) \<noteq> Inl (Shrug, l')"
  proof (cases "m (w, l)")
    case (Inl e)
    with sim_plainD(2) [OF m, of w l] show ?thesis
      by (cases e) (auto simp add: sim_apply)
  next
    case (Inr r)
    obtain x w' l'' where r: "r = (x, w', l'')" by (cases r)
    with sim_plainD(2) [OF f, of x w' l''] Inr show ?thesis
      by (simp add: sim_apply)
  qed
qed

lemmas sim_plain_intros =
  sim_plain_bind sim_plain_if sim_plain_return sim_plain_impersonate sim_plain_balanceOf
  sim_plain_allowance sim_plain_send sim_plain_quote

lemma sim_totalD: "sim_total m \<Longrightarrow> \<exists>r. m s = Inr r"
  unfolding sim_total_def by blast

lemma sim_total_bind:
  assumes "sim_total m" and "\<And>x. sim_total (f x)"
  shows "sim_total (sim_bind m f)"
  unfolding sim_total_def
proof
  fix s
  from sim_totalD [OF assms(1), of s] obtain x w l where "m s = Inr (x, w, l)"
    by (metis prod_cases3)
  with sim_totalD [OF assms(2), of x "(w, l)"] show "\<exists>r. sim_bind m f s = Inr r"
    by (simp add: sim_apply)
qed

lemma sim_total_if: "sim_total m \<Longrightarrow> sim_total m' \<Longrightarrow> sim_total (if b then m else m')"
  by simp

lemma sim_total_return: "sim_total (sim_return x)"
  by (simp add: sim_total_def sim_apply)

lemma sim_total_calls:
  assumes "chain_answers c"
  shows "sim_total (sim_impersonate c a)" and "sim_total (sim_balanceOf c t h)"
    and "sim_total (sim_allowance c t h sp)" and "sim_total (sim_send c a tr)"
    and "sim_total (sim_quote c rq)"
  using assms
  by (auto simp: sim_total_def chain_answers_def sim_apply split: option.split)

lemmas sim_total_intros = sim_total_bind sim_total_if sim_total_return sim_total_calls

lemma sim_Inr_iff:
  "(sim_bind m f s = Inr r) = (\<exists>x w l. m s = Inr (x, w, l) \<and> f x (w, l) = Inr r)"
  "(sim_return x (w, l) = Inr (y, w', l')) = (y = x \<and> w' = w \<and> l' = l)"
  "(sim_throw e (w, l) = Inr r') = False"
  "(sim_impersonate c a (w, l) = Inr (u, w', l')) =
     (impersonate c a w \<and> w' = w \<and> l' = l @ [Impersonated a])"
  "(sim_balanceOf c t h (w, l) = Inr (n, w', l')) =
     (balanceOf c t h w = Some n \<and> w' = w \<and> l' = l)"
  "(sim_allowance c t h sp (w, l) = Inr (n, w', l')) =
     (allowance c t h sp w = Some n \<and> w' = w \<and> l' = l)"
  "(sim_send c a tr (w, l) = Inr (u, w', l')) =
     (sendTransaction c a tr w = Some w' \<and> l' = l @ [Sent a tr])"
  "(sim_quote c rq (w, l) = Inr (q, w', l')) =
     (zrx_quote c rq w = Some q \<and> w' = w \<and> l' = l @ [Quoted rq])"
  by (auto simp: sim_apply split: sum.splits option.splits)

lemma sim_if_Inr_iff:
  "((if b then m else m') s = Inr r) = (if b then m s = Inr r else m' s = Inr r)"
  by simp

lemma sent_by_append: "sent_by a (xs @ ys) = sent_by a xs @ sent_by a ys"
  by (induction a xs rule: sent_by.induct) simp_all

lemma tp_addresses:
  "tp_strategy \<noteq> tp_multicallSwapper" "tp_multicallSwapper \<noteq> tp_strategy"
  by (simp_all add: tp_strategy_def tp_multicallSwapper_def)

lemma cs_addresses:
  "cs_strategy \<noteq> cs_multicallSwapper" "cs_multicallSwapper \<noteq> cs_strategy"
  "cs_crv \<noteq> cs_cvx" "cs_cvx \<noteq> cs_crv"
  by (simp_all add: cs_strategy_def cs_multicallSwapper_def cs_crv_def cs_cvx_def)

lemma tp_tokens:
  "tp_threeCrv \<noteq> tp_usdc" "tp_yvBoost \<noteq> tp_usdc" "tp_yveCrv \<noteq> tp_usdc"
  by (simp_all add: tp_threeCrv_def tp_usdc_def tp_yvBoost_def tp_yveCrv_def)

lemma cs_tokens:
  "cs_weth \<noteq> cs_crv" "cs_weth \<noteq> cs_cvx"
  by (simp_all add: cs_weth_def cs_crv_def cs_cvx_def)

lemma js_lt_examples:
  "\<not> js_lt 9 10" "js_lt 10 9" "\<not> js_lt 900 500" "\<not> js_lt 900 0" "js_lt 1000000000 5000000"
  by (simp_all add: js_lt_def BigNumber_toString_def nat_toString.simps digit_char_def)

subsection \<open>Runs on scripted chains\<close>

lemma tp_scripted_run:
  "ThreePoolCrvMulticall_solve (scripted_chain (tp_balances 5 15) (\<lambda>token n. 9))
      (\<lambda>txs. txs) tp_trade ''tradeFactory'' (0, []) =
    Inr (\<lparr>swapperName = ''ThreePoolCrvMulticall'', transaction_to = ''tradeFactory'',
           transaction = Execute_one
             \<lparr>d_strategy = tp_strategy, d_tokenIn = TokenString tp_threeCrv,
              d_tokenOut = tp_yveCrv, d_amount = 500, d_minAmountOut = 500\<rparr>
             tp_multicallSwapper
             [remove_liquidity_one_coin_tx tp_crv3Pool 500 1 0,
              \<lparr>tx_to = tp_zrxContract, tx_data = Quote_data (quote_data scripted_quote),
               tx_value = None\<rparr>,
              vault_withdraw_tx tp_yvBoost MaxUint256 tp_strategy 0]\<rparr>,
         4,
         [Impersonated tp_strategy, Impersonated tp_multicallSwapper,
          Sent tp_strategy (transfer_tx tp_threeCrv tp_multicallSwapper 500),
          Sent tp_multicallSwapper (remove_liquidity_one_coin_tx tp_crv3Pool 500 1 0),
          Quoted \<lparr>chainId = 1, sellToken = tp_usdc, buyToken = tp_yvBoost, sellAmount = 10,
                  slippagePercentage = (10, 100)\<rparr>,
          Sent tp_multicallSwapper
            \<lparr>tx_to = tp_zrxContract, tx_data = Quote_data (quote_data scripted_quote),
             tx_value = None\<rparr>,
          Sent tp_multicallSwapper
            (vault_withdraw_tx tp_yvBoost MaxUint256 tp_multicallSwapper 0)])"
  by (simp add: ThreePoolCrvMulticall_solve_def sim_apply scripted_chain_def tp_balances_def
      tp_tokens tp_trade_def js_lt_examples Let_def)

lemma cs_scripted_run:
  "CurveSpellEthMulticall_solve (scripted_chain (cs_balances 500 500) (cs_allowances 900 0))
      (\<lambda>txs. txs) cs_trade ''tradeFactory'' (0, []) =
    Inr (\<lparr>swapperName = ''CurveSpellEthMulticall'', transaction_to = ''tradeFactory'',
           transaction = Execute_many
             [\<lparr>d_strategy = cs_strategy, d_tokenIn = TokenString cs_crv,
               d_tokenOut = cs_crvSpellEth, d_amount = 500, d_minAmountOut = 0\<rparr>,
              \<lparr>d_strategy = cs_strategy, d_tokenIn = TokenString cs_cvx,
               d_tokenOut = cs_crvSpellEth, d_amount = 500, d_minAmountOut = 0\<rparr>]
             cs_multicallSwapper
             [\<lparr>tx_to = cs_zrxContract, tx_data = Quote_data (quote_data scripted_quote),
               tx_value = None\<rparr>,
              \<lparr>tx_to = cs_zrxContract, tx_data = Quote_data (quote_data scripted_quote),
               tx_value = None\<rparr>,
              weth_withdraw_tx cs_weth 7,
              add_liquidity_tx cs_curveSwap [7, 0] 0 True cs_strategy 7]\<rparr>,
         6,
         [Impersonated cs_strategy, Impersonated cs_multicallSwapper,
          Sent cs_strategy (transfer_tx cs_crv cs_multicallSwapper 500),
          Sent cs_strategy (transfer_tx cs_cvx cs_multicallSwapper 500),
          Quoted \<lparr>chainId = 1, sellToken = cs_crv, buyToken = cs_weth, sellAmount = 500,
                  slippagePercentage = (10, 100)\<rparr>,
          Sent cs_multicallSwapper
            \<lparr>tx_to = cs_zrxContract, tx_data = Quote_data (quote_data scripted_quote),
             tx_value = None\<rparr>,
          Quoted \<lparr>chainId = 1, sellToken = cs_cvx, buyToken = cs_weth, sellAmount = 500,
                  slippagePercentage = (10, 100)\<rparr>,
          Sent cs_multicallSwapper
            \<lparr>tx_to = cs_zrxContract, tx_data = Quote_data (quote_data scripted_quote),
             tx_value = None\<rparr>,
          Sent cs_multicallSwapper (weth_withdraw_tx cs_weth 7),
          Sent cs_multicallSwapper
            (add_liquidity_tx cs_curveSwap [7, 0] 0 True cs_strategy 7)])"
  by (simp add: CurveSpellEthMulticall_solve_def sim_apply scripted_chain_def cs_balances_def
      cs_allowances_def cs_addresses cs_tokens cs_trade_def js_lt_examples Let_def)

lemma cs_zero_run:
  "CurveSpellEthMulticall_solve (scripted_chain (cs_balances 0 500) (cs_allowances 900 900))
        (\<lambda>txs. txs) cs_trade ''tradeFactory'' (0, []) =
      Inr (\<lparr>swapperName = ''CurveSpellEthMulticall'', transaction_to = ''tradeFactory'',
             transaction = Execute_many
               [\<lparr>d_strategy = cs_strategy, d_tokenIn = TokenString cs_crv,
                 d_tokenOut = cs_crvSpellEth, d_amount = 0, d_minAmountOut = 0\<rparr>,
                \<lparr>d_strategy = cs_strategy, d_tokenIn = TokenString cs_cvx,
                 d_tokenOut = cs_crvSpellEth, d_amount = 500, d_minAmountOut = 0\<rparr>]
               cs_multicallSwapper
               [\<lparr>tx_to = cs_zrxContract, tx_data = Quote_data (quote_data scripted_quote),
                 tx_value = None\<rparr>,
                \<lparr>tx_to = cs_zrxContract, tx_data = Quote_data (quote_data scripted_quote),
                 tx_value = None\<rparr>,
                weth_withdraw_tx cs_weth 7,
                add_liquidity_tx cs_curveSwap [7, 0] 0 True cs_strategy 7]\<rparr>,
           6,
           [Impersonated cs_strategy, Impersonated cs_multicallSwapper,
            Sent cs_strategy (transfer_tx cs_crv cs_multicallSwapper 0),
            Sent cs_strategy (transfer_tx cs_cvx cs_multicallSwapper 500),
            Quoted \<lparr>chainId = 1, sellToken = cs_crv, buyToken = cs_weth, sellAmount = 0,
                    slippagePercentage = (10, 100)\<rparr>,
            Sent cs_multicallSwapper
              \<lparr>tx_to = cs_zrxContract, tx_data = Quote_data (quote_data scripted_quote),
               tx_value = None\<rparr>,
            Quoted \<lparr>chainId = 1, sellToken = cs_cvx, buyToken = cs_weth, sellAmount = 500,
                    slippagePercentage = (10, 100)\<rparr>,
            Sent cs_multicallSwapper
              \<lparr>tx_to = cs_zrxContract, tx_data = Quote_data (quote_data scripted_quote),
               tx_value = None\<rparr>,
            Sent cs_multicallSwapper (weth_withdraw_tx cs_weth 7),
            Sent cs_multicallSwapper
              (add_liquidity_tx cs_curveSwap [7, 0] 0 True cs_strategy 7)])"
  by (simp add: CurveSpellEthMulticall_solve_def sim_apply scripted_chain_def cs_balances_def
      cs_allowances_def cs_addresses cs_tokens cs_trade_def js_lt_examples Let_def)

subsection \<open>The zero-balance abort\<close>

text \<open>
  Claim C7. When the strategy's CRV balance and CVX balance are both zero (or less),
  \<open>CurveSpellEthMulticall.solve\<close> throws; the only events before the throw are the two
  impersonations, so no transfer, quote request or swap has been attempted; and when the
  impersonations succeed the error thrown is the solver's own \<open>':shrug:'\<close>.
\<close>

theorem shrug_before_anything:
  assumes "balanceOf c cs_crv cs_strategy w = Some crvBalance"
    and "balanceOf c cs_cvx cs_strategy w = Some cvxBalance"
    and "crvBalance \<le> 0" and "cvxBalance \<le> 0"
  shows "\<exists>e l. CurveSpellEthMulticall_solve c mergeTransactions trade tradeFactory (w, []) = Inl (e, l) \<and>
           set l \<subseteq> {Impersonated cs_strategy, Impersonated cs_multicallSwapper} \<and>
           (impersonate c cs_strategy w \<and> impersonate c cs_multicallSwapper w \<longrightarrow> e = Shrug)"
  using assms by (simp add: CurveSpellEthMulticall_solve_def sim_apply)

text \<open>
  With both balances zero on a scripted chain the solve throws \<open>':shrug:'\<close>.
\<close>

theorem shrug_before_anything_witness:
  "\<exists>e l. CurveSpellEthMulticall_solve (scripted_chain (cs_balances 0 0) (cs_allowances 0 0))
            (\<lambda>txs. txs) cs_trade ''tradeFactory'' (0, []) = Inl (e, l) \<and>
          set l \<subseteq> {Impersonated cs_strategy, Impersonated cs_multicallSwapper} \<and> e = Shrug"
  using shrug_before_anything [where c = "scripted_chain (cs_balances 0 0) (cs_allowances 0 0)"
      and w = 0 and crvBalance = 0 and cvxBalance = 0 and mergeTransactions = "\<lambda>txs. txs"
      and trade = cs_trade and tradeFactory = "''tradeFactory''"]
  by (simp add: scripted_chain_def cs_balances_def cs_addresses)

subsection \<open>The dust rule\<close>

lemma tp_quote_prefix:
  assumes "\<And>q. sim_plain (k q)" and "l' = l @ [Quoted r]"
  shows "\<exists>rest. events_of (sim_bind (sim_quote c r) k (w2, l)) = l' @ rest"
proof (cases "zrx_quote c r w2")
  case None
  then show ?thesis by (simp add: sim_apply assms(2))
next
  case (Some q)
  from sim_plainD(1) [OF assms(1), of q w2 "l @ [Quoted r]"] Some show ?thesis
    by (auto simp add: sim_apply assms(2))
qed

lemma tp_dust_prefix:
  assumes "impersonate c tp_strategy w" and "impersonate c tp_multicallSwapper w"
    and "balanceOf c tp_threeCrv (trade_strategy trade) w = Some amount"
    and "sendTransaction c tp_strategy (transfer_tx tp_threeCrv tp_multicallSwapper amount) w = Some w1"
    and "balanceOf c tp_usdc tp_multicallSwapper w1 = Some usdcBalancePre"
    and "sendTransaction c tp_multicallSwapper (remove_liquidity_one_coin_tx tp_crv3Pool amount 1 0) w1 = Some w2"
    and "balanceOf c tp_usdc tp_multicallSwapper w2 = Some usdcBalanceTotal"
  shows "\<exists>rest. events_of (ThreePoolCrvMulticall_solve c mergeTransactions trade tradeFactory (w, [])) =
           [Impersonated tp_strategy, Impersonated tp_multicallSwapper,
            Sent tp_strategy (transfer_tx tp_threeCrv tp_multicallSwapper amount),
            Sent tp_multicallSwapper (remove_liquidity_one_coin_tx tp_crv3Pool amount 1 0),
            Quoted \<lparr>chainId = 1, sellToken = tp_usdc, buyToken = tp_yvBoost,
                    sellAmount =
                      (if usdcBalanceTotal = usdcBalanceTotal - usdcBalancePre
                       then usdcBalanceTotal - usdcBalancePre - 1
                       else usdcBalanceTotal - usdcBalancePre),
                    slippagePercentage = (10, 100)\<rparr>] @ rest"
proof -
  show ?thesis
    unfolding ThreePoolCrvMulticall_solve_def
    apply (subst sim_step [where x = "()" and w' = w and l' = "[Impersonated tp_strategy]"])
     apply (simp add: sim_apply assms)
    apply (subst sim_step [where x = "()" and w' = w
          and l' = "[Impersonated tp_strategy, Impersonated tp_multicallSwapper]"])
     apply (simp add: sim_apply assms)
    apply (subst sim_step [where x = amount and w' = w
          and l' = "[Impersonated tp_strategy, Impersonated tp_multicallSwapper]"])
     apply (simp add: sim_apply assms)
    apply (subst sim_step [where x = "()" and w' = w1
          and l' = "[Impersonated tp_strategy, Impersonated tp_multicallSwapper,
            Sent tp_strategy (transfer_tx tp_threeCrv tp_multicallSwapper amount)]"])
     apply (simp add: sim_apply assms)
    apply (subst sim_step [where x = usdcBalancePre and w' = w1
          and l' = "[Impersonated tp_strategy, Impersonated tp_multicallSwapper,
            Sent tp_strategy (transfer_tx tp_threeCrv tp_multicallSwapper amount)]"])
     apply (simp add: sim_apply assms)
    apply (subst sim_step [where x = "()" and w' = w2
          and l' = "[Impersonated tp_strategy, Impersonated tp_multicallSwapper,
            Sent tp_strategy (transfer_tx tp_threeCrv tp_multicallSwapper amount),
            Sent tp_multicallSwapper (remove_liquidity_one_coin_tx tp_crv3Pool amount 1 0)]"])
     apply (simp add: sim_apply assms)
    apply (subst sim_step [where x = usdcBalanceTotal and w' = w2
          and l' = "[Impersonated tp_strategy, Impersonated tp_multicallSwapper,
            Sent tp_strategy (transfer_tx tp_threeCrv tp_multicallSwapper amount),
            Sent tp_multicallSwapper (remove_liquidity_one_coin_tx tp_crv3Pool amount 1 0)]"])
     apply (simp add: sim_apply assms)
    apply (unfold Let_def)
    apply (rule tp_quote_prefix [where l = "[Impersonated tp_strategy, Impersonated tp_multicallSwapper,
            Sent tp_strategy (transfer_tx tp_threeCrv tp_multicallSwapper amount),
            Sent tp_multicallSwapper (remove_liquidity_one_coin_tx tp_crv3Pool amount 1 0)]"])
     apply (intro sim_plain_intros)
    apply simp
    done
qed

text \<open>
  Claim C4. In \<open>ThreePoolCrvMulticall.solve\<close>, once the 3Crv balance is read and
  transferred and liquidity is removed, the amount the swap leg is quoted for is the
  before/after delta of the swapper's USDC balance minus 1 when the total after the removal
  equals that delta, and the delta itself otherwise. The solve's events begin with the two
  impersonations, the transfer, the removal and the quote request for that amount,
  whatever happens afterwards. The total equals the delta exactly when the balance before
  was zero.
\<close>

theorem dust_rule:
  assumes "impersonate c tp_strategy w" and "impersonate c tp_multicallSwapper w"
    and "balanceOf c tp_threeCrv (trade_strategy trade) w = Some amount"
    and "sendTransaction c tp_strategy (transfer_tx tp_threeCrv tp_multicallSwapper amount) w = Some w1"
    and "balanceOf c tp_usdc tp_multicallSwapper w1 = Some usdcBalancePre"
    and "sendTransaction c tp_multicallSwapper (remove_liquidity_one_coin_tx tp_crv3Pool amount 1 0) w1 = Some w2"
    and "balanceOf c tp_usdc tp_multicallSwapper w2 = Some usdcBalanceTotal"
  shows "(\<exists>rest. events_of (ThreePoolCrvMulticall_solve c mergeTransactions trade tradeFactory (w, [])) =
            [Impersonated tp_strategy, Impersonated tp_multicallSwapper,
             Sent tp_strategy (transfer_tx tp_threeCrv tp_multicallSwapper amount),
             Sent tp_multicallSwapper (remove_liquidity_one_coin_tx tp_crv3Pool amount 1 0),
             Quoted \<lparr>chainId = 1, sellToken = tp_usdc, buyToken = tp_yvBoost,
                     sellAmount =
                       (if usdcBalanceTotal = usdcBalanceTotal - usdcBalancePre
                        then usdcBalanceTotal - usdcBalancePre - 1
                        else usdcBalanceTotal - usdcBalancePre),
                     slippagePercentage = (10, 100)\<rparr>] @ rest) \<and>
         ((usdcBalanceTotal = usdcBalanceTotal - usdcBalancePre) = (usdcBalancePre = 0))"
  by (rule conjI [OF tp_dust_prefix [OF assms]]) auto

text \<open>
  A swapper without USDC that receives 1000 is quoted for 999.
\<close>

theorem dust_rule_witness:
  "\<exists>rest. events_of (ThreePoolCrvMulticall_solve (scripted_chain (tp_balances 0 1000) (\<lambda>token n. 0))
            (\<lambda>txs. txs) tp_trade ''tradeFactory'' (0, [])) =
          [Impersonated tp_strategy, Impersonated tp_multicallSwapper,
           Sent tp_strategy (transfer_tx tp_threeCrv tp_multicallSwapper 500),
           Sent tp_multicallSwapper (remove_liquidity_one_coin_tx tp_crv3Pool 500 1 0),
           Quoted \<lparr>chainId = 1, sellToken = tp_usdc, buyToken = tp_yvBoost,
                   sellAmount = 999, slippagePercentage = (10, 100)\<rparr>] @ rest"
  using dust_rule [where c = "scripted_chain (tp_balances 0 1000) (\<lambda>token n. 0)"
      and w = 0 and ?w1.0 = 1 and ?w2.0 = 2 and amount = 500 and usdcBalancePre = 0
      and usdcBalanceTotal = 1000 and mergeTransactions = "\<lambda>txs. txs"
      and trade = tp_trade and tradeFactory = "''tradeFactory''", THEN conjunct1]
  by (simp add: scripted_chain_def tp_balances_def tp_tokens)

subsection \<open>The populated transactions and the simulated ones\<close>

lemma tp_solve_returns:
  assumes "ThreePoolCrvMulticall_solve c (\<lambda>txs. txs) trade tradeFactory (w, []) = Inr (r, w', l)"
  shows "sent_by tp_multicallSwapper l =
           butlast (merged_payload (transaction r)) @
           [vault_withdraw_tx tp_yvBoost MaxUint256 tp_multicallSwapper 0] \<and>
         last (merged_payload (transaction r)) =
           vault_withdraw_tx tp_yvBoost MaxUint256 tp_strategy 0"
  using assms
  apply (simp add: ThreePoolCrvMulticall_solve_def sim_Inr_iff sim_if_Inr_iff Let_def)
  apply clarify
  apply (simp add: tp_addresses butlast_append sent_by_append sim_Inr_iff split: if_splits)
  done

lemma cs_solve_returns:
  assumes "CurveSpellEthMulticall_solve c (\<lambda>txs. txs) trade tradeFactory (w, []) = Inr (r, w', l)"
  shows "sent_by cs_multicallSwapper l = merged_payload (transaction r)"
  using assms
  apply (simp add: CurveSpellEthMulticall_solve_def sim_Inr_iff sim_if_Inr_iff Let_def)
  apply clarify
  apply (simp add: cs_addresses sent_by_append sim_Inr_iff split: if_splits)
  done

lemma sim_map_bind: "sim_map g (sim_bind m f) = sim_bind m (\<lambda>x. sim_map g (f x))"
  by (auto simp: sim_map_def sim_bind_def fun_eq_iff split: sum.splits)

lemma sim_map_return: "sim_map g (sim_return x) = sim_return (g x)"
  by (auto simp: sim_map_def sim_return_def fun_eq_iff)

lemma sim_map_Inr_iff: "(sim_map g m s = Inr (r, w, l)) = (\<exists>r0. m s = Inr (r0, w, l) \<and> r = g r0)"
  by (auto simp: sim_map_def split: sum.splits)

lemma payload_with_merger:
  "merged_payload (transaction (with_merger g r)) = g (merged_payload (transaction r))"
  by (cases "transaction r") (simp_all add: with_merger_def)

lemma tp_any_merger:
  "ThreePoolCrvMulticall_solve c mergeTransactions trade tradeFactory =
     sim_map (with_merger mergeTransactions)
       (ThreePoolCrvMulticall_solve c (\<lambda>txs. txs) trade tradeFactory)"
  by (simp add: ThreePoolCrvMulticall_solve_def sim_map_bind sim_map_return Let_def
      with_merger_def)

lemma cs_any_merger:
  "CurveSpellEthMulticall_solve c mergeTransactions trade tradeFactory =
     sim_map (with_merger mergeTransactions)
       (CurveSpellEthMulticall_solve c (\<lambda>txs. txs) trade tradeFactory)"
  by (simp add: CurveSpellEthMulticall_solve_def sim_map_bind sim_map_return Let_def
      with_merger_def)

text \<open>
  Claim C3, as the solvers have it. When a solve returns, its payload is the merger applied
  to a list of transactions that are, in order, the transactions the multicall swapper
  sent in the simulation. For \<open>CurveSpellEthMulticall\<close> the two lists are equal. For
  \<open>ThreePoolCrvMulticall\<close> they agree up to the last transaction, the vault withdrawal:
  the simulation withdraws to the multicall swapper, where the solver then reads the
  yveCRV balance, and the populated transaction withdraws to the strategy. The transfers
  the strategy signer sends first are not among the populated transactions.
\<close>

theorem populated_follows_simulation:
  "(ThreePoolCrvMulticall_solve c mergeTransactions trade tradeFactory (w, []) = Inr (r, w', l) \<longrightarrow>
      (\<exists>txs. merged_payload (transaction r) = mergeTransactions txs \<and>
         sent_by tp_multicallSwapper l =
           butlast txs @ [vault_withdraw_tx tp_yvBoost MaxUint256 tp_multicallSwapper 0] \<and>
         last txs = vault_withdraw_tx tp_yvBoost MaxUint256 tp_strategy 0)) \<and>
   (CurveSpellEthMulticall_solve c2 mergeTransactions2 trade2 tradeFactory2 (w2, []) =
      Inr (r2, w2', l2) \<longrightarrow>
      (\<exists>txs. merged_payload (transaction r2) = mergeTransactions2 txs \<and>
         sent_by cs_multicallSwapper l2 = txs))"
proof (intro conjI impI)
  assume "ThreePoolCrvMulticall_solve c mergeTransactions trade tradeFactory (w, []) = Inr (r, w', l)"
  then obtain r0
    where r0: "ThreePoolCrvMulticall_solve c (\<lambda>txs. txs) trade tradeFactory (w, []) = Inr (r0, w', l)"
      and r: "r = with_merger mergeTransactions r0"
    by (subst (asm) tp_any_merger) (auto simp: sim_map_Inr_iff)
  from tp_solve_returns [OF r0] r
  show "\<exists>txs. merged_payload (transaction r) = mergeTransactions txs \<and>
         sent_by tp_multicallSwapper l =
           butlast txs @ [vault_withdraw_tx tp_yvBoost MaxUint256 tp_multicallSwapper 0] \<and>
         last txs = vault_withdraw_tx tp_yvBoost MaxUint256 tp_strategy 0"
    by (intro exI [of _ "merged_payload (transaction r0)"]) (simp add: payload_with_merger)
next
  assume "CurveSpellEthMulticall_solve c2 mergeTransactions2 trade2 tradeFactory2 (w2, []) =
      Inr (r2, w2', l2)"
  then obtain r0
    where r0: "CurveSpellEthMulticall_solve c2 (\<lambda>txs. txs) trade2 tradeFactory2 (w2, []) = Inr (r0, w2', l2)"
      and r: "r2 = with_merger mergeTransactions2 r0"
    by (subst (asm) cs_any_merger) (auto simp: sim_map_Inr_iff)
  from cs_solve_returns [OF r0] r
  show "\<exists>txs. merged_payload (transaction r2) = mergeTransactions2 txs \<and>
         sent_by cs_multicallSwapper l2 = txs"
    by (intro exI [of _ "merged_payload (transaction r0)"]) (simp add: payload_with_merger)
qed

text \<open>
  Both parts on scripted chains, where both solves return.
\<close>

theorem populated_follows_simulation_witness:
  "sent_by tp_multicallSwapper
     (events_of (ThreePoolCrvMulticall_solve (scripted_chain (tp_balances 5 15) (\<lambda>token n. 9))
        (\<lambda>txs. txs) tp_trade ''tradeFactory'' (0, []))) =
     [remove_liquidity_one_coin_tx tp_crv3Pool 500 1 0,
      \<lparr>tx_to = tp_zrxContract, tx_data = Quote_data (quote_data scripted_quote), tx_value = None\<rparr>,
      vault_withdraw_tx tp_yvBoost MaxUint256 tp_multicallSwapper 0] \<and>
   populated_transactions
     (CurveSpellEthMulticall_solve (scripted_chain (cs_balances 500 500) (cs_allowances 900 0))
        (\<lambda>txs. txs) cs_trade ''tradeFactory'' (0, [])) =
     Some (sent_by cs_multicallSwapper
       (events_of (CurveSpellEthMulticall_solve
          (scripted_chain (cs_balances 500 500) (cs_allowances 900 0))
          (\<lambda>txs. txs) cs_trade ''tradeFactory'' (0, []))))"
  using populated_follows_simulation [THEN conjunct1, rule_format, OF tp_scripted_run]
    populated_follows_simulation [THEN conjunct2, rule_format, OF cs_scripted_run]
  unfolding tp_scripted_run cs_scripted_run
  by (simp add: populated_transactions_def)

text \<open>
  Claim C3 as stated fails for the three-pool solver: on a scripted chain the populated
  list is not the list the swapper sent, the recipient of the vault withdrawal differs.
\<close>

theorem populated_equals_simulation_counterexample:
  "populated_transactions
     (ThreePoolCrvMulticall_solve (scripted_chain (tp_balances 5 15) (\<lambda>token n. 9))
        (\<lambda>txs. txs) tp_trade ''tradeFactory'' (0, [])) \<noteq>
   Some (sent_by tp_multicallSwapper
     (events_of (ThreePoolCrvMulticall_solve (scripted_chain (tp_balances 5 15) (\<lambda>token n. 9))
        (\<lambda>txs. txs) tp_trade ''tradeFactory'' (0, []))))"
  unfolding tp_scripted_run
  by (simp add: populated_transactions_def tp_addresses vault_withdraw_tx_def)

subsection \<open>One source balance zero\<close>

lemma cs_past_guard:
  assumes "impersonate c cs_strategy w" and "impersonate c cs_multicallSwapper w"
    and "balanceOf c cs_crv cs_strategy w = Some crvBalance"
    and "balanceOf c cs_cvx cs_strategy w = Some cvxBalance"
    and "\<not> (crvBalance \<le> 0 \<and> cvxBalance \<le> 0)"
    and "\<And>k. sim_plain k \<Longrightarrow> (chain_answers c \<longrightarrow> sim_total k) \<Longrightarrow>
           P (k (w, [Impersonated cs_strategy, Impersonated cs_multicallSwapper]))"
  shows "P (CurveSpellEthMulticall_solve c mergeTransactions trade tradeFactory (w, []))"
  unfolding CurveSpellEthMulticall_solve_def
  apply (subst sim_step [where x = "()" and w' = w and l' = "[Impersonated cs_strategy]"])
   apply (simp add: sim_apply assms)
  apply (subst sim_step [where x = "()" and w' = w
        and l' = "[Impersonated cs_strategy, Impersonated cs_multicallSwapper]"])
   apply (simp add: sim_apply assms)
  apply (subst sim_step [where x = crvBalance and w' = w
        and l' = "[Impersonated cs_strategy, Impersonated cs_multicallSwapper]"])
   apply (simp add: sim_apply assms)
  apply (subst sim_step [where x = cvxBalance and w' = w
        and l' = "[Impersonated cs_strategy, Impersonated cs_multicallSwapper]"])
   apply (simp add: sim_apply assms)
  apply (subst sim_step [where x = "()" and w' = w
        and l' = "[Impersonated cs_strategy, Impersonated cs_multicallSwapper]"])
   apply (simp add: sim_apply assms)
  apply (unfold Let_def)
  apply (rule assms(6))
   apply (intro sim_plain_intros)
  apply (intro impI sim_total_intros; assumption)
  done

lemma cs_zero_leg:
  assumes out: "CurveSpellEthMulticall_solve c (\<lambda>txs. txs) trade tradeFactory (w, []) = Inr (r, w', l)"
    and "balanceOf c cs_crv cs_strategy w = Some crvBalance"
    and "balanceOf c cs_cvx cs_strategy w = Some cvxBalance"
    and "(crvBalance = 0 \<and> z = cs_crv) \<or> (cvxBalance = 0 \<and> z = cs_cvx)"
  shows "Sent cs_strategy (transfer_tx z cs_multicallSwapper 0) \<in> set l \<and>
         Quoted \<lparr>chainId = 1, sellToken = z, buyToken = cs_weth, sellAmount = 0,
                 slippagePercentage = (10, 100)\<rparr> \<in> set l \<and>
         (\<exists>q wq. zrx_quote c \<lparr>chainId = 1, sellToken = z, buyToken = cs_weth, sellAmount = 0,
                    slippagePercentage = (10, 100)\<rparr> wq = Some q \<and>
            \<lparr>tx_to = cs_zrxContract, tx_data = Quote_data (quote_data q), tx_value = None\<rparr>
              \<in> set (merged_payload (transaction r))) \<and>
         \<lparr>d_strategy = cs_strategy, d_tokenIn = TokenString z,
          d_tokenOut = trade_tokenOut trade, d_amount = 0, d_minAmountOut = 0\<rparr>
           \<in> set (trade_descriptors (transaction r))"
  using assms
  apply (simp add: CurveSpellEthMulticall_solve_def sim_Inr_iff sim_if_Inr_iff Let_def)
  apply clarify
  apply (erule disjE)
   apply (auto simp add: sim_Inr_iff split: if_splits)
  done

text \<open>
  Claim C10, as the solver has it. When exactly one of the strategy's CRV and CVX balances
  is zero and the other is positive, \<open>CurveSpellEthMulticall.solve\<close> does not throw
  \<open>':shrug:'\<close>, and on a chain whose calls all answer it returns. Whenever it returns, it
  has sent the transfer of the zero balance of that token \<open>z\<close>, it has requested a quote
  for \<open>z\<close> with sellAmount zero, the swap transaction made of an answer to that request
  is among the merged transactions, and the trade descriptors passed to the executor hold
  the one for \<open>z\<close> with amount zero. An awaited call that throws is not caught.
\<close>

theorem one_zero_balance:
  fixes c :: "'a chain"
  assumes "balanceOf c cs_crv cs_strategy w = Some crvBalance"
    and "balanceOf c cs_cvx cs_strategy w = Some cvxBalance"
    and "(crvBalance = 0 \<and> 0 < cvxBalance \<and> z = cs_crv) \<or>
         (0 < crvBalance \<and> cvxBalance = 0 \<and> z = cs_cvx)"
  shows "(\<forall>l. CurveSpellEthMulticall_solve c (\<lambda>txs. txs) trade tradeFactory (w, []) \<noteq> Inl (Shrug, l)) \<and>
         (chain_answers c \<longrightarrow>
            returned (CurveSpellEthMulticall_solve c (\<lambda>txs. txs) trade tradeFactory (w, [])) \<noteq> None) \<and>
         (\<forall>r w' l. CurveSpellEthMulticall_solve c (\<lambda>txs. txs) trade tradeFactory (w, []) = Inr (r, w', l) \<longrightarrow>
            Sent cs_strategy (transfer_tx z cs_multicallSwapper 0) \<in> set l \<and>
            Quoted \<lparr>chainId = 1, sellToken = z, buyToken = cs_weth, sellAmount = 0,
                    slippagePercentage = (10, 100)\<rparr> \<in> set l \<and>
            (\<exists>q wq. zrx_quote c \<lparr>chainId = 1, sellToken = z, buyToken = cs_weth, sellAmount = 0,
                       slippagePercentage = (10, 100)\<rparr> wq = Some q \<and>
               \<lparr>tx_to = cs_zrxContract, tx_data = Quote_data (quote_data q), tx_value = None\<rparr>
                 \<in> set (merged_payload (transaction r))) \<and>
            \<lparr>d_strategy = cs_strategy, d_tokenIn = TokenString z,
             d_tokenOut = trade_tokenOut trade, d_amount = 0, d_minAmountOut = 0\<rparr>
              \<in> set (trade_descriptors (transaction r)))"
    (is "?no_shrug \<and> ?returns \<and> ?leg")
proof (intro conjI)
  let ?out = "CurveSpellEthMulticall_solve c (\<lambda>txs. txs) trade tradeFactory (w, [])"
  from assms(3) have guard: "\<not> (crvBalance \<le> 0 \<and> cvxBalance \<le> 0)" by auto
  show ?no_shrug
  proof (cases "impersonate c cs_strategy w \<and> impersonate c cs_multicallSwapper w")
    case True
    then have imp: "impersonate c cs_strategy w" "impersonate c cs_multicallSwapper w"
      by simp_all
    show ?thesis
    proof
      fix l
      show "?out \<noteq> Inl (Shrug, l)"
        by (rule cs_past_guard [OF imp assms(1,2) guard]) (rule sim_plainD(2))
    qed
  next
    case False
    then consider "\<not> impersonate c cs_strategy w"
      | "impersonate c cs_strategy w" "\<not> impersonate c cs_multicallSwapper w"
      by blast
    then show ?thesis
      by cases (simp_all add: CurveSpellEthMulticall_solve_def sim_apply)
  qed
  show ?returns
  proof
    assume ans: "chain_answers c"
    then have "impersonate c cs_strategy w" "impersonate c cs_multicallSwapper w"
      by (simp_all add: chain_answers_def)
    then show "returned ?out \<noteq> None"
    proof (rule cs_past_guard [OF _ _ assms(1,2) guard, where P = "\<lambda>out. returned out \<noteq> None"])
      fix k :: "('a, (tx list) TradeSetup) sim"
      assume "chain_answers c \<longrightarrow> sim_total k"
      with ans have "sim_total k" by simp
      from sim_totalD [OF this]
      show "returned (k (w, [Impersonated cs_strategy, Impersonated cs_multicallSwapper])) \<noteq> None"
        by (metis option.distinct(1) prod_cases3 returned.simps(2))
    qed
  qed
  show ?leg
    using cs_zero_leg [OF _ assms(1,2)] assms(3) by blast
qed

text \<open>
  A strategy without CRV and with 500 CVX, on a scripted chain.
\<close>

theorem one_zero_balance_witness:
  "chain_answers (scripted_chain (cs_balances 0 500) (cs_allowances 900 900)) \<and>
   returned (CurveSpellEthMulticall_solve (scripted_chain (cs_balances 0 500) (cs_allowances 900 900))
     (\<lambda>txs. txs) cs_trade ''tradeFactory'' (0, [])) \<noteq> None \<and>
   Quoted \<lparr>chainId = 1, sellToken = cs_crv, buyToken = cs_weth, sellAmount = 0,
           slippagePercentage = (10, 100)\<rparr>
     \<in> set (events_of (CurveSpellEthMulticall_solve
               (scripted_chain (cs_balances 0 500) (cs_allowances 900 900))
               (\<lambda>txs. txs) cs_trade ''tradeFactory'' (0, [])))"
proof -
  have ans: "chain_answers (scripted_chain (cs_balances 0 500) (cs_allowances 900 900))"
    by (simp add: chain_answers_def scripted_chain_def)
  have "balanceOf (scripted_chain (cs_balances 0 500) (cs_allowances 900 900)) cs_crv cs_strategy 0 = Some 0"
    and "balanceOf (scripted_chain (cs_balances 0 500) (cs_allowances 900 900)) cs_cvx cs_strategy 0 = Some 500"
    by (simp_all add: scripted_chain_def cs_balances_def cs_addresses)
  from one_zero_balance [OF this, where z = cs_crv and trade = cs_trade
      and tradeFactory = "''tradeFactory''"] ans
  show ?thesis
    unfolding cs_zero_run by simp
qed

text \<open>
  Claim C10 as stated fails where a call throws: with a quote provider that refuses a sell
  amount of zero, the solve with no CRV and 500 CVX throws, after the two transfers and the
  quote request for zero CRV.
\<close>

theorem one_zero_balance_counterexample:
  "CurveSpellEthMulticall_solve (refusing_chain (cs_balances 0 500) (cs_allowances 900 900))
     (\<lambda>txs. txs) cs_trade ''tradeFactory'' (0, []) =
   Inl (Rejected,
     [Impersonated cs_strategy, Impersonated cs_multicallSwapper,
      Sent cs_strategy (transfer_tx cs_crv cs_multicallSwapper 0),
      Sent cs_strategy (transfer_tx cs_cvx cs_multicallSwapper 500),
      Quoted \<lparr>chainId = 1, sellToken = cs_crv, buyToken = cs_weth, sellAmount = 0,
              slippagePercentage = (10, 100)\<rparr>])"
  by (simp add: CurveSpellEthMulticall_solve_def sim_apply refusing_chain_def scripted_chain_def
      cs_balances_def cs_addresses Let_def)

subsection \<open>The approval test\<close>

text \<open>
  Claim C2 asks for the approval of a leg's sell token exactly when the swapper's allowance
  of that token to the quote's allowanceTarget is below the sell amount. The solvers
  compare two BigNumber objects with \<open><\<close>, which compares their decimal strings, and the
  CVX leg reads the allowance of CRV. Evaluated: the test holds for an allowance of
  1000000000 against an amount of 5000000; on scripted chains, with a USDC allowance of 9
  and a sell amount of 10 the three-pool solver sends no approval, and with a CRV
  allowance of 900, a CVX allowance of 0 and 500 CVX to sell the two-source solver sends
  no approval of CVX.
\<close>

theorem allowance_comparison_evaluated:
  "js_lt 1000000000 5000000 \<and>
   allowance (scripted_chain (tp_balances 5 15) (\<lambda>token n. 9)) tp_usdc tp_multicallSwapper
     (allowanceTarget scripted_quote) 2 = Some 9 \<and>
   Quoted \<lparr>chainId = 1, sellToken = tp_usdc, buyToken = tp_yvBoost, sellAmount = 10,
           slippagePercentage = (10, 100)\<rparr>
     \<in> set (events_of (ThreePoolCrvMulticall_solve (scripted_chain (tp_balances 5 15) (\<lambda>token n. 9))
               (\<lambda>txs. txs) tp_trade ''tradeFactory'' (0, []))) \<and>
   sent_by tp_multicallSwapper
     (events_of (ThreePoolCrvMulticall_solve (scripted_chain (tp_balances 5 15) (\<lambda>token n. 9))
        (\<lambda>txs. txs) tp_trade ''tradeFactory'' (0, []))) =
     [remove_liquidity_one_coin_tx tp_crv3Pool 500 1 0,
      \<lparr>tx_to = tp_zrxContract, tx_data = Quote_data (quote_data scripted_quote), tx_value = None\<rparr>,
      vault_withdraw_tx tp_yvBoost MaxUint256 tp_multicallSwapper 0] \<and>
   allowance (scripted_chain (cs_balances 500 500) (cs_allowances 900 0)) cs_cvx cs_multicallSwapper
     (allowanceTarget scripted_quote) 3 = Some 0 \<and>
   Quoted \<lparr>chainId = 1, sellToken = cs_cvx, buyToken = cs_weth, sellAmount = 500,
           slippagePercentage = (10, 100)\<rparr>
     \<in> set (events_of (CurveSpellEthMulticall_solve
               (scripted_chain (cs_balances 500 500) (cs_allowances 900 0))
               (\<lambda>txs. txs) cs_trade ''tradeFactory'' (0, []))) \<and>
   sent_by cs_multicallSwapper
     (events_of (CurveSpellEthMulticall_solve
        (scripted_chain (cs_balances 500 500) (cs_allowances 900 0))
        (\<lambda>txs. txs) cs_trade ''tradeFactory'' (0, []))) =
     [\<lparr>tx_to = cs_zrxContract, tx_data = Quote_data (quote_data scripted_quote), tx_value = None\<rparr>,
      \<lparr>tx_to = cs_zrxContract, tx_data = Quote_data (quote_data scripted_quote), tx_value = None\<rparr>,
      weth_withdraw_tx cs_weth 7,
      add_liquidity_tx cs_curveSwap [7, 0] 0 True cs_strategy 7]"
  unfolding tp_scripted_run cs_scripted_run
  by (simp add: scripted_chain_def cs_allowances_def cs_addresses tp_addresses js_lt_examples)

section \<open>The harvest worker\<close>

subsection \<open>Runs of scripted jobs\<close>

lemma toLowerCase_examples:
  "toLowerCase ''0xAa01'' = ''0xaa01''" "toLowerCase ''0xAa02'' = ''0xaa02''"
  "toLowerCase ''0xAa03'' = ''0xaa03''"
  "toLowerCase ''0xAA01'' = ''0xaa01''" "toLowerCase ''0xAA02'' = ''0xaa02''"
  by code_simp+

lemma find_two_sharing:
  "find_configuration two_sharing ''0xAA01'' =
     Some \<lparr>hc_address = ''0xAa01'', tokensBeingDumped = [''0xBoo'']\<rparr>"
  "find_configuration two_sharing ''0xAA02'' =
     Some \<lparr>hc_address = ''0xAa02'', tokensBeingDumped = [''0xBoo'', ''0xSpirit'']\<rparr>"
  by (simp_all add: find_configuration_def two_sharing_def toLowerCase_examples)

lemma not_listed:
  "''0xAA01'' \<notin> set sbeetStrats" "''0xAA02'' \<notin> set sbeetStrats"
  "''0xB905eabA7A23424265638bdACFFE55564c7B299B'' \<in> set sbeetStrats"
  by (simp_all add: sbeetStrats_def)

lemma scripted_before_loop:
  "\<exists>st. before_loop
     (scripted_job (Some [''0xAA01'', ''0xB905eabA7A23424265638bdACFFE55564c7B299B'', ''0xAA02''])
        last_works (\<lambda>s. Some True) (\<lambda>s. Some 100) (\<lambda>s. Some ''0x1''))
     two_sharing 1000000 = Inr ([''0xAA01'', ''0xAA02''], st) \<and>
     world st = 1000000 \<and> lastTimeRewardWasDumped st ''0xBoo'' = Some 200 \<and>
     dumpStores st = [(''0xBoo'', None, 100), (''0xBoo'', Some 100, 200), (''0xSpirit'', None, 200)]"
  by (simp add: before_loop_def scripted_job_def not_listed getLastWorkAt_def last_works_def
      find_two_sharing noteDump_def Let_def)


lemma estimate_throws_run:
  "printed_lists (main
     (scripted_job (Some [''0xAA01'']) last_works (\<lambda>s. Some True) (\<lambda>s. None) (\<lambda>s. Some ''0x1''))
     two_sharing 1000000) = Some ([], [], [], [''0xAA01''])"
  by (simp add: main_def before_loop_def scripted_job_def not_listed getLastWorkAt_def last_works_def
      find_two_sharing noteDump_def Let_def harvest_loop_def work_strategy_def
      isStratOnLiquidityCooldown_def unix_def REWARD_DUMPED_COOLDOWN_def caught_def
      printed_lists_def)

lemma estimate_throws_calls:
  "work_calls (main
     (scripted_job (Some [''0xAA01'']) last_works (\<lambda>s. Some True) (\<lambda>s. None) (\<lambda>s. Some ''0x1''))
     two_sharing 1000000) = Some []"
  by (simp add: main_def before_loop_def scripted_job_def not_listed getLastWorkAt_def last_works_def
      find_two_sharing noteDump_def Let_def harvest_loop_def work_strategy_def
      isStratOnLiquidityCooldown_def unix_def REWARD_DUMPED_COOLDOWN_def caught_def
      work_calls_def)


subsection \<open>The map of last dumps\<close>

lemma noteDump_map:
  "fst (noteDump t tok d) tok' =
     (if tok' = tok then Some (case fst d tok of None \<Rightarrow> t | Some v \<Rightarrow> max v t) else fst d tok')"
  by (cases d) (auto simp: noteDump_def split: option.splits)

lemma fold_noteDump_map:
  "fst (fold (noteDump t) toks d) tok =
     (if tok \<in> set toks then Some (case fst d tok of None \<Rightarrow> t | Some v \<Rightarrow> max v t)
      else fst d tok)"
  by (induction toks arbitrary: d) (auto simp: noteDump_map split: option.splits)

lemma foldl_latest:
  "foldl (\<lambda>x t. Some (case x of None \<Rightarrow> t | Some v \<Rightarrow> max v t)) x ts =
     (if ts = [] then x
      else Some (Max (set ts \<union> (case x of None \<Rightarrow> {} | Some v \<Rightarrow> {v}))))"
proof (induction ts arbitrary: x)
  case Nil
  then show ?case by simp
next
  case (Cons t ts)
  show ?case
  proof (cases ts)
    case Nil
    then show ?thesis by (cases x) (simp_all add: max.commute)
  next
    case (Cons t' ts')
    then have ne: "set ts \<noteq> {}" by simp
    show ?thesis
    proof (cases x)
      case None
      with Cons.IH ne show ?thesis
        by (simp add: insert_commute)
    next
      case (Some v)
      have "Max (insert (max v t) (set ts)) = Max (insert t (insert v (set ts)))"
        using ne by (simp add: max.assoc max.commute max.left_commute)
      with Some Cons.IH ne show ?thesis
        by (simp add: max.left_commute)
    qed
  qed
qed

lemma mapLastDumps_map:
  "mapLastDumps cfgs lws d = Inr d' \<Longrightarrow>
   fst d' tok =
     foldl (\<lambda>x t. Some (case x of None \<Rightarrow> t | Some v \<Rightarrow> max v t)) (fst d tok)
       (dump_times cfgs lws tok)"
proof (induction lws arbitrary: d)
  case Nil
  then show ?case by (simp add: dump_times_def)
next
  case (Cons lw lws)
  then obtain h where h: "find_configuration cfgs (lw_strategy lw) = Some h"
    by (auto split: option.splits)
  with Cons.prems have "mapLastDumps cfgs lws (fold (noteDump (lw_timestamp lw)) (tokensBeingDumped h) d) = Inr d'"
    by simp
  from Cons.IH [OF this] h show ?case
    by (simp add: dump_times_def dumps_token_def fold_noteDump_map)
qed

lemma getAllLastWorkAt_strategies:
  "getAllLastWorkAt j ss w = (Some lws, w') \<Longrightarrow> map lw_strategy lws = ss"
proof (induction ss arbitrary: w lws w')
  case Nil
  then show ?case by simp
next
  case (Cons s ss)
  then show ?case
    by (auto simp: getLastWorkAt_def split: prod.splits option.splits)
qed

lemma last_dump_from_fetched:
  assumes "job_strategies j w0 = (Some all_strategies, w1)"
    and "getAllLastWorkAt j (filter (\<lambda>strategy. strategy \<notin> set sbeetStrats) all_strategies) w1 =
           (Some lastWorksAt, w2)"
    and "before_loop j harvestConfigurations w0 = Inr (strategies, st)"
  shows "strategies = filter (\<lambda>strategy. strategy \<notin> set sbeetStrats) all_strategies \<and>
         map lw_strategy lastWorksAt = strategies \<and>
         lastTimeRewardWasDumped st token =
           (if dump_times harvestConfigurations lastWorksAt token = [] then None
            else Some (Max (set (dump_times harvestConfigurations lastWorksAt token))))"
proof -
  from assms obtain d where d: "mapLastDumps harvestConfigurations lastWorksAt (Map.empty, []) = Inr d"
    and st: "lastTimeRewardWasDumped st = fst d"
    and ss: "strategies = filter (\<lambda>strategy. strategy \<notin> set sbeetStrats) all_strategies"
    by (auto simp: before_loop_def Let_def split: sum.splits)
  from mapLastDumps_map [OF d, of token] st
  have "lastTimeRewardWasDumped st token =
      (if dump_times harvestConfigurations lastWorksAt token = [] then None
       else Some (Max (set (dump_times harvestConfigurations lastWorksAt token))))"
    by (simp add: foldl_latest)
  with ss getAllLastWorkAt_strategies [OF assms(2)] show ?thesis by simp
qed

lemma lastWorkAt_calls_fetched:
  "lastWorkAt_calls j ss w = (map Some ts, w') \<Longrightarrow>
   getAllLastWorkAt j ss w =
     (Some (map2 (\<lambda>s t. \<lparr>lw_strategy = s, lw_timestamp = t\<rparr>) ss ts), w')"
proof (induction ss arbitrary: w ts)
  case Nil
  then show ?case by simp
next
  case (Cons s ss)
  obtain r w1 where r: "job_lastWorkAt j s w = (r, w1)"
    by (cases "job_lastWorkAt j s w")
  obtain rs w2 where rs: "lastWorkAt_calls j ss w1 = (rs, w2)"
    by (cases "lastWorkAt_calls j ss w1")
  from Cons.prems r rs have eq: "r # rs = map Some ts" and w': "w2 = w'"
    by simp_all
  then obtain t ts' where ts: "ts = t # ts'" and rt: "r = Some t" and rs': "rs = map Some ts'"
    by (cases ts) auto
  from Cons.IH [of w1 ts'] rs rs' w'
  have "getAllLastWorkAt j ss w1 =
      (Some (map2 (\<lambda>s t. \<lparr>lw_strategy = s, lw_timestamp = t\<rparr>) ss ts'), w')"
    by simp
  with r rt ts show ?case
    by (simp add: getLastWorkAt_def)
qed

lemma lastWorkAt_calls_length:
  "length (fst (lastWorkAt_calls j ss w)) = length ss"
  by (induction ss arbitrary: w) (simp_all add: case_prod_unfold)

text \<open>
  Claim C5. When \<open>main\<close> reaches the loop, the strategies it works on are those of the
  job contract that are not on the deny list, and the map of last dumps holds for every
  token the maximum of the timestamps that the job contract answered to the \<open>lastWorkAt\<close>
  calls, taken over the strategies whose configuration lists the token as being dumped
  (and nothing for a token no such configuration lists). The timestamps are those of the
  contract's own answers, paired in order with the strategies they were asked for.
\<close>

theorem last_dump_is_latest_work:
  assumes "job_strategies j w0 = (Some all_strategies, w1)"
    and "lastWorkAt_calls j (filter (\<lambda>strategy. strategy \<notin> set sbeetStrats) all_strategies) w1 =
           (map Some timestamps, w2)"
    and "before_loop j harvestConfigurations w0 = Inr (strategies, st)"
  shows "strategies = filter (\<lambda>strategy. strategy \<notin> set sbeetStrats) all_strategies \<and>
         length timestamps = length strategies \<and>
         lastTimeRewardWasDumped st token =
           (if dump_times harvestConfigurations
                 (map2 (\<lambda>s t. \<lparr>lw_strategy = s, lw_timestamp = t\<rparr>) strategies timestamps)
                 token = []
            then None
            else Some (Max (set (dump_times harvestConfigurations
                   (map2 (\<lambda>s t. \<lparr>lw_strategy = s, lw_timestamp = t\<rparr>) strategies timestamps)
                   token))))"
proof -
  let ?ss = "filter (\<lambda>strategy. strategy \<notin> set sbeetStrats) all_strategies"
  from assms(1,3) have ss: "strategies = ?ss"
    by (auto simp: before_loop_def Let_def split: prod.splits option.splits sum.splits)
  from lastWorkAt_calls_length [of j ?ss w1] assms(2)
  have len: "length timestamps = length strategies"
    by (simp add: ss)
  from last_dump_from_fetched [OF assms(1) lastWorkAt_calls_fetched [OF assms(2)] assms(3), of token]
  show ?thesis
    using ss len by simp
qed

text \<open>
  Two strategies share a dumped token, the job contract answers 300 and 200 for their
  \<open>lastWorkAt\<close>, a third strategy is on the deny list: the shared token's entry is 300,
  the entry of the token only the second strategy dumps is 200, and a token that no
  configuration lists has no entry.
\<close>

theorem last_dump_is_latest_work_witness:
  "lastWorkAt_calls
     (scripted_job (Some [''0xAA01'', ''0xB905eabA7A23424265638bdACFFE55564c7B299B'', ''0xAA02''])
        (\<lambda>s. if s = ''0xAA01'' then Some 300 else Some 200)
        (\<lambda>s. Some True) (\<lambda>s. Some 100) (\<lambda>s. Some ''0x1''))
     [''0xAA01'', ''0xAA02''] 1000000 = ([Some 300, Some 200], 1000000) \<and>
   (\<exists>st. before_loop
     (scripted_job (Some [''0xAA01'', ''0xB905eabA7A23424265638bdACFFE55564c7B299B'', ''0xAA02''])
        (\<lambda>s. if s = ''0xAA01'' then Some 300 else Some 200)
        (\<lambda>s. Some True) (\<lambda>s. Some 100) (\<lambda>s. Some ''0x1''))
     two_sharing 1000000 = Inr ([''0xAA01'', ''0xAA02''], st) \<and>
     lastTimeRewardWasDumped st ''0xBoo'' = Some (max 300 200) \<and>
     lastTimeRewardWasDumped st ''0xSpirit'' = Some 200 \<and>
     lastTimeRewardWasDumped st ''0xOther'' = None)"
proof -
  let ?j = "scripted_job (Some [''0xAA01'', ''0xB905eabA7A23424265638bdACFFE55564c7B299B'', ''0xAA02''])
        (\<lambda>s. if s = ''0xAA01'' then Some 300 else Some 200)
        (\<lambda>s. Some True) (\<lambda>s. Some 100) (\<lambda>s. Some ''0x1'')"
  let ?lws = "[\<lparr>lw_strategy = ''0xAA01'', lw_timestamp = 300\<rparr>,
               \<lparr>lw_strategy = ''0xAA02'', lw_timestamp = 200\<rparr>]"
  have "\<exists>st. before_loop ?j two_sharing 1000000 = Inr ([''0xAA01'', ''0xAA02''], st)"
    by (simp add: before_loop_def scripted_job_def not_listed getLastWorkAt_def
        find_two_sharing noteDump_def Let_def)
  then obtain st
    where b: "before_loop ?j two_sharing 1000000 = Inr ([''0xAA01'', ''0xAA02''], st)"
    by blast
  have s: "job_strategies ?j 1000000 =
      (Some [''0xAA01'', ''0xB905eabA7A23424265638bdACFFE55564c7B299B'', ''0xAA02''], 1000000)"
    by (simp add: scripted_job_def)
  have c: "lastWorkAt_calls ?j [''0xAA01'', ''0xAA02''] 1000000 = ([Some 300, Some 200], 1000000)"
    by (simp add: scripted_job_def)
  then have g: "lastWorkAt_calls ?j (filter (\<lambda>strategy. strategy \<notin> set sbeetStrats)
        [''0xAA01'', ''0xB905eabA7A23424265638bdACFFE55564c7B299B'', ''0xAA02'']) 1000000 =
      (map Some [300, 200], 1000000)"
    by (simp add: not_listed)
  have t: "dump_times two_sharing ?lws ''0xBoo'' = [300, 200]"
    "dump_times two_sharing ?lws ''0xSpirit'' = [200]"
    "dump_times two_sharing ?lws ''0xOther'' = []"
    by (simp_all add: dump_times_def dumps_token_def find_two_sharing)
  from last_dump_is_latest_work [OF s g b, of "''0xBoo''"] t(1)
  have boo: "lastTimeRewardWasDumped st ''0xBoo'' = Some (max 300 200)"
    by simp
  from last_dump_is_latest_work [OF s g b, of "''0xSpirit''"] t(2)
  have spirit: "lastTimeRewardWasDumped st ''0xSpirit'' = Some 200"
    by simp
  from last_dump_is_latest_work [OF s g b, of "''0xOther''"] t(3)
  have other: "lastTimeRewardWasDumped st ''0xOther'' = None"
    by simp
  from b c boo spirit other show ?thesis by blast
qed

subsection \<open>Stores into the map\<close>





















subsection \<open>What one turn of the loop changes\<close>

lemma harvest_loop_append:
  "harvest_loop j cfgs (xs @ ys) st = harvest_loop j cfgs ys (harvest_loop j cfgs xs st)"
  by (simp add: harvest_loop_def)

lemma harvest_loop_Cons:
  "harvest_loop j cfgs (s # ss) st = harvest_loop j cfgs ss (work_strategy j cfgs s st)"
  by (simp add: harvest_loop_def)

lemma work_strategy_other:
  assumes "s' \<noteq> s"
  shows "count_list (worked (work_strategy j cfgs s' st)) s = count_list (worked st) s"
    and "filter (\<lambda>p. fst p = s) (workSubmitted (work_strategy j cfgs s' st)) =
           filter (\<lambda>p. fst p = s) (workSubmitted st)"
  using assms
  by (simp_all add: work_strategy_def caught_def Let_def case_prod_unfold split: option.splits)

lemma harvest_loop_other:
  assumes "s \<notin> set ss"
  shows "count_list (worked (harvest_loop j cfgs ss st)) s = count_list (worked st) s \<and>
         filter (\<lambda>p. fst p = s) (workSubmitted (harvest_loop j cfgs ss st)) =
           filter (\<lambda>p. fst p = s) (workSubmitted st)"
  using assms
proof (induction ss arbitrary: st)
  case Nil
  then show ?case by (simp add: harvest_loop_def)
next
  case (Cons s' ss)
  then have "s' \<noteq> s" "s \<notin> set ss" by auto
  from Cons.IH [OF this(2), of "work_strategy j cfgs s' st"]
    work_strategy_other [OF this(1), of j cfgs st]
  show ?case by (simp add: harvest_loop_Cons)
qed

lemma work_strategy_works:
  assumes "job_workable j s (world st) = (Some True, w1)"
    and "find_configuration cfgs s = Some h"
    and "\<not> isStratOnLiquidityCooldown (clock_ms j w1) (tokensBeingDumped h) (lastTimeRewardWasDumped st)"
    and "job_estimateGas_work j s w1 = (Some gasLimit, w2)"
    and "job_work j s (BigNumber_div (gasLimit * 110) 100) w2 = (Some hash, w3)"
  shows "worked (work_strategy j cfgs s st) = worked st @ [s]"
    and "workSubmitted (work_strategy j cfgs s st) =
           workSubmitted st @ [(s, BigNumber_div (gasLimit * 110) 100)]"
  using assms
  by (simp_all add: work_strategy_def Let_def case_prod_unfold)

lemma before_loop_lists:
  assumes "before_loop j cfgs w0 = Inr (ss, st0)"
  shows "worked st0 = []" "notWorkable st0 = []" "onLiquidityCooldown st0 = []"
    "errorWhileWorked st0 = []" "workSubmitted st0 = []"
  using assms
  by (auto simp: before_loop_def Let_def split: prod.splits option.splits sum.splits)

lemma BigNumber_div_floor: "0 \<le> a \<Longrightarrow> 0 < b \<Longrightarrow> BigNumber_div a b = a div b"
  by (cases "a = 0") (simp_all add: BigNumber_div_def)

text \<open>
  Claim C8, as the worker has it. A strategy that the job lists once, that is workable and
  not on cooldown when the loop reaches it, and for which neither the gas estimate nor the
  \<open>work\<close> call throws, is submitted once, with a gas limit of the estimate times 110
  divided by 100 (rounded down), and appears exactly once in the worked list at the end
  of the run.
\<close>

theorem worked_once_with_buffer:
  assumes "before_loop j harvestConfigurations w0 = Inr (pre @ strategy # post, st0)"
    and "strategy \<notin> set pre" and "strategy \<notin> set post"
    and "st = harvest_loop j harvestConfigurations pre st0"
    and "job_workable j strategy (world st) = (Some True, w1)"
    and "find_configuration harvestConfigurations strategy = Some h"
    and "\<not> isStratOnLiquidityCooldown (clock_ms j w1) (tokensBeingDumped h)
            (lastTimeRewardWasDumped st)"
    and "job_estimateGas_work j strategy w1 = (Some gasLimit, w2)"
    and "job_work j strategy (BigNumber_div (gasLimit * 110) 100) w2 = (Some hash, w3)"
  shows "\<exists>final. main j harvestConfigurations w0 = Inr final \<and>
           count_list (worked final) strategy = 1 \<and>
           filter (\<lambda>p. fst p = strategy) (workSubmitted final) =
             [(strategy, BigNumber_div (gasLimit * 110) 100)] \<and>
           (0 \<le> gasLimit \<longrightarrow> BigNumber_div (gasLimit * 110) 100 = gasLimit * 110 div 100)"
proof -
  let ?final = "harvest_loop j harvestConfigurations (pre @ strategy # post) st0"
  let ?limit = "BigNumber_div (gasLimit * 110) 100"
  have m: "main j harvestConfigurations w0 = Inr ?final"
    using assms(1) by (simp add: main_def)
  have f: "?final = harvest_loop j harvestConfigurations post
      (work_strategy j harvestConfigurations strategy st)"
    by (simp add: harvest_loop_append harvest_loop_Cons assms(4))
  from harvest_loop_other [OF assms(2), of j harvestConfigurations st0] before_loop_lists [OF assms(1)]
  have pre: "count_list (worked st) strategy = 0"
    "filter (\<lambda>p. fst p = strategy) (workSubmitted st) = []"
    by (simp_all add: assms(4))
  from work_strategy_works [OF assms(5-9)] pre
  have "count_list (worked (work_strategy j harvestConfigurations strategy st)) strategy = 1"
    and "filter (\<lambda>p. fst p = strategy)
          (workSubmitted (work_strategy j harvestConfigurations strategy st)) = [(strategy, ?limit)]"
    by simp_all
  with harvest_loop_other [OF assms(3), of j harvestConfigurations
      "work_strategy j harvestConfigurations strategy st"]
  have "count_list (worked ?final) strategy = 1"
    and "filter (\<lambda>p. fst p = strategy) (workSubmitted ?final) = [(strategy, ?limit)]"
    unfolding f by simp_all
  with m show ?thesis
    by (auto simp: BigNumber_div_floor)
qed

text \<open>
  The first strategy of a scripted job: estimate 100, limit 110.
\<close>

theorem worked_once_with_buffer_witness:
  "\<exists>final. main
     (scripted_job (Some [''0xAA01'', ''0xB905eabA7A23424265638bdACFFE55564c7B299B'', ''0xAA02''])
        last_works (\<lambda>s. Some True) (\<lambda>s. Some 100) (\<lambda>s. Some ''0x1''))
     two_sharing 1000000 = Inr final \<and>
     count_list (worked final) ''0xAA01'' = 1 \<and>
     filter (\<lambda>p. fst p = ''0xAA01'') (workSubmitted final) = [(''0xAA01'', 110)]"
proof -
  let ?j = "scripted_job (Some [''0xAA01'', ''0xB905eabA7A23424265638bdACFFE55564c7B299B'', ''0xAA02''])
        last_works (\<lambda>s. Some True) (\<lambda>s. Some 100) (\<lambda>s. Some ''0x1'')"
  from scripted_before_loop obtain st0
    where b: "before_loop ?j two_sharing 1000000 = Inr ([] @ ''0xAA01'' # [''0xAA02''], st0)"
      and w: "world st0 = 1000000" and boo: "lastTimeRewardWasDumped st0 ''0xBoo'' = Some 200"
    by auto
  have st: "st0 = harvest_loop ?j two_sharing [] st0"
    by (simp add: harvest_loop_def)
  have workable: "job_workable ?j ''0xAA01'' (world st0) = (Some True, 1000000)"
    by (simp add: scripted_job_def w)
  have cool: "\<not> isStratOnLiquidityCooldown (clock_ms ?j 1000000)
      (tokensBeingDumped \<lparr>hc_address = ''0xAa01'', tokensBeingDumped = [''0xBoo'']\<rparr>)
      (lastTimeRewardWasDumped st0)"
    by (simp add: isStratOnLiquidityCooldown_def boo unix_def REWARD_DUMPED_COOLDOWN_def
        scripted_job_def)
  have gas: "job_estimateGas_work ?j ''0xAA01'' 1000000 = (Some 100, 1000000)"
    by (simp add: scripted_job_def)
  have work: "job_work ?j ''0xAA01'' (BigNumber_div (100 * 110) 100) 1000000 = (Some ''0x1'', 1001000)"
    by (simp add: scripted_job_def)
  from worked_once_with_buffer [OF b _ _ st workable find_two_sharing(1) cool gas work]
  show ?thesis
    by (simp add: BigNumber_div_def)
qed

text \<open>
  Claim C8 as stated fails where a call throws: a strategy that is workable and not on
  cooldown, whose gas estimate throws, is not submitted and ends in the errored list.
\<close>

theorem worked_once_counterexample:
  "job_workable
     (scripted_job (Some [''0xAA01'']) last_works (\<lambda>s. Some True) (\<lambda>s. None) (\<lambda>s. Some ''0x1''))
     ''0xAA01'' 1000000 = (Some True, 1000000) \<and>
   printed_lists (main
     (scripted_job (Some [''0xAA01'']) last_works (\<lambda>s. Some True) (\<lambda>s. None) (\<lambda>s. Some ''0x1''))
     two_sharing 1000000) = Some ([], [], [], [''0xAA01'']) \<and>
   work_calls (main
     (scripted_job (Some [''0xAA01'']) last_works (\<lambda>s. Some True) (\<lambda>s. None) (\<lambda>s. Some ''0x1''))
     two_sharing 1000000) = Some []"
  unfolding estimate_throws_run estimate_throws_calls
  by (simp add: scripted_job_def)

subsection \<open>Which errors end a run\<close>










end
